theory Spec2Isabelle
  imports Main "HOL-Library.Word" "HOL-Library.Sublist"
begin

unbundle bit_operations_syntax

section \<open>Machine integers of the Go source\<close>

text \<open>
  Every \<open>int64\<close> (and, on a 64-bit platform, every \<open>int\<close>) of \<open>window.go\<close> is an
  \<^typ>\<open>int\<close> between \<open>-2^63\<close> and \<open>2^63 - 1\<close>. Go's \<open>+\<close>, \<open>-\<close> and \<open>*\<close> wrap around
  in two's complement, \<open>/\<close> truncates towards zero and \<open>%\<close> takes the sign of the
  dividend. A division by zero panics: the callers below test the divisor first and
  return \<open>None\<close>, which stands for a panic of the goroutine.
\<close>

definition i64 :: "int \<Rightarrow> int" where
  "i64 x = (x + 9223372036854775808) mod 18446744073709551616 - 9223372036854775808"

definition is64 :: "int \<Rightarrow> bool" where
  "is64 x \<longleftrightarrow> - 9223372036854775808 \<le> x \<and> x < 9223372036854775808"

definition add64 :: "int \<Rightarrow> int \<Rightarrow> int" where
  "add64 a b = i64 (a + b)"

definition sub64 :: "int \<Rightarrow> int \<Rightarrow> int" where
  "sub64 a b = i64 (a - b)"

definition mul64 :: "int \<Rightarrow> int \<Rightarrow> int" where
  "mul64 a b = i64 (a * b)"

definition neg64 :: "int \<Rightarrow> int" where
  "neg64 a = i64 (- a)"

definition quo64 :: "int \<Rightarrow> int \<Rightarrow> int" where
  "quo64 a b = i64 (sgn a * sgn b * (\<bar>a\<bar> div \<bar>b\<bar>))"

definition rem64 :: "int \<Rightarrow> int \<Rightarrow> int" where
  "rem64 a b = sgn a * (\<bar>a\<bar> mod \<bar>b\<bar>)"

text \<open>
  Modelled from the spec: \<open>mathutil.MaxInt64\<close>, \<open>mathutil.MinInt64\<close> and
  \<open>mathutil.MaxInt\<close> are not among the source files; they return the larger
  (smaller) of their two arguments.
\<close>

abbreviation MaxInt64 :: "int \<Rightarrow> int \<Rightarrow> int" where
  "MaxInt64 a b \<equiv> max a b"

abbreviation MinInt64 :: "int \<Rightarrow> int \<Rightarrow> int" where
  "MinInt64 a b \<equiv> min a b"

abbreviation MaxInt :: "int \<Rightarrow> int \<Rightarrow> int" where
  "MaxInt a b \<equiv> max a b"

section \<open>Events, modes and positions\<close>

text \<open>
  Modelled from the spec: the packages \<open>event\<close> and \<open>mode\<close> are not among the source
  files. The event types are those \<open>run\<close> switches on (\<open>OtherEvent\<close> stands for every
  type that reaches its \<open>default\<close> branch); a \<open>Position\<close> is one of the five variants
  \<open>positionToOffset\<close> resolves, \<open>InvalidPosition\<close> standing for any other value of
  the interface.
\<close>

datatype eventType =
    CursorUp | CursorDown | CursorLeft | CursorRight | CursorPrev | CursorNext
  | CursorHead | CursorEnd | CursorGoto | ScrollUp | ScrollDown
  | PageUp | PageDown | PageUpHalf | PageDownHalf | PageTop | PageEnd
  | JumpTo | JumpBack
  | DeleteByte | DeletePrevByte | Increment | Decrement
  | StartInsert | StartInsertHead | StartAppend | StartAppendEnd
  | StartReplaceByte | StartReplace | ExitInsert | Rune | Backspace | Delete
  | StartVisual | SwitchVisualEnd | ExitVisual | SwitchFocus
  | Undo | Redo | ExecuteSearch | NextSearch | PreviousSearch
  | OtherEvent

datatype mode = Normal | Insert | Replace | Visual | Cmdline

datatype Position =
    Absolute int | Relative int | End int | VisualStart int | VisualEnd int
  | InvalidPosition

record range =
  From :: "Position option"
  To :: "Position option"

type_synonym byte = "8 word"

record event =
  eType :: eventType
  eMode :: mode
  eCount :: int
  eRune :: int
  eArg :: "byte list"
  eRange :: "range option"

text \<open>
  The event types between \<open>event.CursorUp\<close> and \<open>event.JumpBack\<close> (line 202 of
  \<open>window.go\<close>): the navigation events, in the order of the switch of \<open>run\<close>.
\<close>

definition isNavigation :: "eventType \<Rightarrow> bool" where
  "isNavigation t \<longleftrightarrow> t \<in> {CursorUp, CursorDown, CursorLeft, CursorRight, CursorPrev,
     CursorNext, CursorHead, CursorEnd, CursorGoto, ScrollUp, ScrollDown, PageUp, PageDown,
     PageUpHalf, PageDownHalf, PageTop, PageEnd, JumpTo, JumpBack}"

section \<open>The content handle and the history\<close>

text \<open>
  Modelled from the spec: the package \<open>buffer\<close> is not among the source files. The
  content handle is the sequence of its bytes. \<open>ReadAt\<close> fails on a negative offset
  and otherwise reads what is there, a short read at the end of the content being no
  error; \<open>Insert\<close>, \<open>Replace\<close> and \<open>Delete\<close> act at one offset, and a write at or after
  the end extends the content (zero bytes in between), so that a write into empty
  content establishes length 1.
\<close>

definition buffer_Len :: "byte list \<Rightarrow> int" where
  "buffer_Len b = int (length b)"

definition buffer_ReadAt :: "byte list \<Rightarrow> int \<Rightarrow> int \<Rightarrow> byte list option" where
  "buffer_ReadAt b off n = (if off < 0 then None else Some (take (nat n) (drop (nat off) b)))"

definition buffer_Insert :: "byte list \<Rightarrow> int \<Rightarrow> byte \<Rightarrow> byte list" where
  "buffer_Insert b off c =
     (if off < 0 then b
      else if off \<le> int (length b) then take (nat off) b @ [c] @ drop (nat off) b
      else b @ replicate (nat off - length b) 0 @ [c])"

definition buffer_Replace :: "byte list \<Rightarrow> int \<Rightarrow> byte \<Rightarrow> byte list" where
  "buffer_Replace b off c =
     (if off < 0 then b
      else if off < int (length b) then b[nat off := c]
      else b @ replicate (nat off - length b) 0 @ [c])"

definition buffer_Delete :: "byte list \<Rightarrow> int \<Rightarrow> byte list" where
  "buffer_Delete b off =
     (if off < 0 then b else take (nat off) b @ drop (Suc (nat off)) b)"

text \<open>
  Modelled from the spec: the package \<open>history\<close> is not among the source files. It is
  an ordered log of checkpoints (content, viewport offset, cursor) with a position in
  it. \<open>Push\<close> drops the checkpoints after the position and appends one; \<open>Undo\<close> and
  \<open>Redo\<close> step the position and return the checkpoint there, or nothing once the log
  is exhausted in that direction.
\<close>

type_synonym checkpoint = "byte list \<times> int \<times> int"

record history =
  entries :: "checkpoint list"
  index :: nat

definition history_Push :: "history \<Rightarrow> checkpoint \<Rightarrow> history" where
  "history_Push h c = \<lparr>entries = take (Suc (index h)) (entries h) @ [c],
                       index = length (take (Suc (index h)) (entries h))\<rparr>"

definition history_Undo :: "history \<Rightarrow> (checkpoint \<times> history) option" where
  "history_Undo h =
     (if index h = 0 \<or> length (entries h) \<le> index h - 1 then None
      else Some (entries h ! (index h - 1), h\<lparr>index := index h - 1\<rparr>))"

definition history_Redo :: "history \<Rightarrow> (checkpoint \<times> history) option" where
  "history_Redo h =
     (if length (entries h) \<le> Suc (index h) then None
      else Some (entries h ! Suc (index h), h\<lparr>index := Suc (index h)\<rparr>))"

section \<open>The window\<close>

text \<open>
  The struct \<open>window\<close> of \<open>window.go\<close>, without its name, channels and mutex. The
  fields \<open>length\<close> and \<open>append\<close> carry the suffix \<open>_w\<close>. A saved jump position (the
  struct \<open>position\<close>) is the pair of its cursor and its offset.
\<close>

type_synonym position = "int \<times> int"

record window =
  buffer :: "byte list"
  changedTick :: "64 word"
  prevChanged :: bool
  history :: history
  height :: int
  width :: int
  offset :: int
  cursor :: int
  length_w :: int
  stack :: "position list"
  append_w :: bool
  replaceByte :: bool
  extending :: bool
  pending :: bool
  pendingByte :: byte
  visualStart :: int
  focusText :: bool

datatype error = NoVisualSelection | InvalidRange

definition newWindow :: "byte list \<Rightarrow> window" where
  "newWindow r = \<lparr>buffer = r, changedTick = 0, prevChanged = False,
     history = \<lparr>entries = [(r, 0, 0)], index = 0\<rparr>,
     height = 0, width = 0, offset = 0, cursor = 0, length_w = buffer_Len r, stack = [],
     append_w = False, replaceByte = False, extending = False, pending = False,
     pendingByte = 0, visualStart = - 1, focusText = False\<rparr>"

definition setSize :: "int \<Rightarrow> int \<Rightarrow> window \<Rightarrow> window option" where
  "setSize wd ht w =
     (if wd = 0 then None
      else
        let w1 = w\<lparr>width := wd, height := ht\<rparr>;
            w2 = w1\<lparr>offset := mul64 (quo64 (offset w1) (width w1)) (width w1)\<rparr>;
            w3 = (if cursor w2 \<ge> add64 (offset w2) (mul64 (height w2) (width w2))
                  then w2\<lparr>offset := mul64 (quo64 (add64 (sub64 (cursor w2)
                         (mul64 (height w2) (width w2))) (width w2)) (width w2)) (width w2)\<rparr>
                  else w2)
        in Some (w3\<lparr>offset := MinInt64 (offset w3)
             (mul64 (quo64 (MaxInt64 (add64 (sub64 (sub64 (length_w w3) 1)
                (mul64 (height w3) (width w3))) (width w3)) 0) (width w3)) (width w3))\<rparr>))"

text \<open>
  \<open>readBytes\<close>: a zeroed array of \<open>len\<close> bytes, filled from the content at \<open>offset\<close>;
  \<open>None\<close> is the error return (an error of \<open>ReadAt\<close> other than end-of-content).
\<close>

definition readBytes :: "window \<Rightarrow> int \<Rightarrow> int \<Rightarrow> byte list option" where
  "readBytes w off len =
     (case buffer_ReadAt (buffer w) off len of
        None \<Rightarrow> None
      | Some bs \<Rightarrow> Some (bs @ replicate (nat len - length bs) 0))"

definition positionToOffset :: "window \<Rightarrow> Position \<Rightarrow> error + int" where
  "positionToOffset w pos =
     (case pos of
        Absolute n \<Rightarrow>
          Inr (MaxInt64 (MinInt64 n (sub64 (MaxInt64 (length_w w) 1) 1)) 0)
      | Relative n \<Rightarrow>
          Inr (add64 (cursor w) (MaxInt64
                (MinInt64 n (sub64 (sub64 (MaxInt64 (length_w w) 1) 1) (cursor w)))
                (neg64 (cursor w))))
      | End n \<Rightarrow>
          Inr (add64 (sub64 (MaxInt64 (length_w w) 1) 1) (MaxInt64
                (MinInt64 n 0)
                (neg64 (sub64 (MaxInt64 (length_w w) 1) 1))))
      | VisualStart n \<Rightarrow>
          (if visualStart w < 0 then Inl NoVisualSelection
           else Inr (add64 (visualStart w) (MaxInt64
                (MinInt64 n (sub64 (sub64 (MaxInt64 (length_w w) 1) 1) (visualStart w)))
                (neg64 (visualStart w)))))
      | VisualEnd n \<Rightarrow>
          (if visualStart w < 0 then Inl NoVisualSelection
           else Inr (add64 (cursor w) (MaxInt64
                (MinInt64 n (sub64 (sub64 (MaxInt64 (length_w w) 1) 1) (cursor w)))
                (neg64 (cursor w)))))
      | InvalidPosition \<Rightarrow> Inl InvalidRange)"

definition insert_w :: "int \<Rightarrow> byte \<Rightarrow> window \<Rightarrow> window" where
  "insert_w off c w =
     w\<lparr>buffer := buffer_Insert (buffer w) off c, changedTick := changedTick w + 1\<rparr>"

definition replace_w :: "int \<Rightarrow> byte \<Rightarrow> window \<Rightarrow> window" where
  "replace_w off c w =
     w\<lparr>buffer := buffer_Replace (buffer w) off c, changedTick := changedTick w + 1\<rparr>"

definition delete_w :: "int \<Rightarrow> window \<Rightarrow> window" where
  "delete_w off w =
     w\<lparr>buffer := buffer_Delete (buffer w) off, changedTick := changedTick w + 1\<rparr>"

section \<open>Cursor movement\<close>

text \<open>
  The statement \<open>if w.cursor >= w.offset+w.height*w.width { w.offset = ... }\<close> that
  closes \<open>cursorDown\<close>, \<open>cursorNext\<close>, \<open>cursorEnd\<close>, \<open>startAppend\<close> and \<open>insertByte\<close>
  (lines 367, 427, 441, 665 and 745): it divides by the width only when the cursor
  is below the viewport.
\<close>

definition scrollToCursor :: "window \<Rightarrow> window option" where
  "scrollToCursor w =
     (if cursor w \<ge> add64 (offset w) (mul64 (height w) (width w))
      then (if width w = 0 then None
            else Some (w\<lparr>offset := mul64 (quo64 (add64 (sub64 (cursor w)
                    (mul64 (height w) (width w))) (width w)) (width w)) (width w)\<rparr>))
      else Some w)"

definition cursorUp :: "int \<Rightarrow> window \<Rightarrow> window option" where
  "cursorUp count w =
     (if width w = 0 then None
      else
        let w1 = w\<lparr>cursor := sub64 (cursor w)
                   (mul64 (MinInt64 (MaxInt64 count 1) (quo64 (cursor w) (width w))) (width w))\<rparr>;
            w2 = (if cursor w1 < offset w1
                  then w1\<lparr>offset := mul64 (quo64 (cursor w1) (width w1)) (width w1)\<rparr>
                  else w1)
        in Some (if append_w w2 \<and> extending w2 \<and> cursor w2 < sub64 (length_w w2) 1
                 then (let w3 = w2\<lparr>append_w := False, extending := False\<rparr>
                       in if length_w w3 > 0 then w3\<lparr>length_w := sub64 (length_w w3) 1\<rparr> else w3)
                 else w2))"

definition cursorDown :: "int \<Rightarrow> window \<Rightarrow> window option" where
  "cursorDown count w =
     (if width w = 0 then None
      else scrollToCursor (w\<lparr>cursor := add64 (cursor w)
             (MinInt64
                (mul64 (MinInt64 (MaxInt64 count 1)
                          (sub64 (quo64 (sub64 (MaxInt64 (length_w w) 1) 1) (width w))
                                 (quo64 (cursor w) (width w))))
                       (width w))
                (sub64 (sub64 (MaxInt64 (length_w w) 1) 1) (cursor w)))\<rparr>))"

definition cursorLeft :: "int \<Rightarrow> window \<Rightarrow> window option" where
  "cursorLeft count w =
     (if width w = 0 then None
      else
        let w1 = w\<lparr>cursor := sub64 (cursor w)
                   (MinInt64 (MaxInt64 count 1) (rem64 (cursor w) (width w)))\<rparr>
        in Some (if append_w w1 \<and> extending w1 \<and> cursor w1 < sub64 (length_w w1) 1
                 then (let w2 = w1\<lparr>append_w := False, extending := False\<rparr>
                       in if length_w w2 > 0 then w2\<lparr>length_w := sub64 (length_w w2) 1\<rparr> else w2)
                 else w1))"

definition cursorRight :: "mode \<Rightarrow> int \<Rightarrow> window \<Rightarrow> window option" where
  "cursorRight m count w =
     (if m = Normal then
        (if width w = 0 then None
         else Some (w\<lparr>cursor := add64 (cursor w)
                (MinInt64
                   (MinInt64 (MaxInt64 count 1)
                      (sub64 (sub64 (width w) 1) (rem64 (cursor w) (width w))))
                   (sub64 (sub64 (MaxInt64 (length_w w) 1) 1) (cursor w)))\<rparr>))
      else if \<not> extending w then
        (if width w = 0 then None
         else
           let w1 = w\<lparr>cursor := add64 (cursor w)
                      (MinInt64
                         (MinInt64 (MaxInt64 count 1)
                            (sub64 (sub64 (width w) 1) (rem64 (cursor w) (width w))))
                         (sub64 (length_w w) (cursor w)))\<rparr>
           in Some (if cursor w1 = length_w w1
                    then w1\<lparr>append_w := True, extending := True,
                            length_w := add64 (length_w w1) 1\<rparr>
                    else w1))
      else Some w)"

definition cursorPrev :: "int \<Rightarrow> window \<Rightarrow> window option" where
  "cursorPrev count w =
     (let w1 = w\<lparr>cursor := sub64 (cursor w) (MinInt64 (MaxInt64 count 1) (cursor w))\<rparr>
      in if cursor w1 < offset w1 \<and> width w1 = 0 then None
         else
           let w2 = (if cursor w1 < offset w1
                     then w1\<lparr>offset := mul64 (quo64 (cursor w1) (width w1)) (width w1)\<rparr>
                     else w1)
           in Some (if append_w w2 \<and> extending w2 \<and> cursor w2 \<noteq> length_w w2
                    then (let w3 = w2\<lparr>append_w := False, extending := False\<rparr>
                          in if length_w w3 > 0 then w3\<lparr>length_w := sub64 (length_w w3) 1\<rparr>
                             else w3)
                    else w2))"

definition cursorNext :: "mode \<Rightarrow> int \<Rightarrow> window \<Rightarrow> window option" where
  "cursorNext m count w =
     scrollToCursor
       (if m = Normal then
          w\<lparr>cursor := add64 (cursor w)
               (MinInt64 (MaxInt64 count 1)
                  (sub64 (sub64 (MaxInt64 (length_w w) 1) 1) (cursor w)))\<rparr>
        else if \<not> extending w then
          (let w1 = w\<lparr>cursor := add64 (cursor w)
                      (MinInt64 (MaxInt64 count 1) (sub64 (length_w w) (cursor w)))\<rparr>
           in if cursor w1 = length_w w1
              then w1\<lparr>append_w := True, extending := True, length_w := add64 (length_w w1) 1\<rparr>
              else w1)
        else w)"

definition cursorHead :: "int \<Rightarrow> window \<Rightarrow> window option" where
  "cursorHead count w =
     (if width w = 0 then None
      else Some (w\<lparr>cursor := sub64 (cursor w) (rem64 (cursor w) (width w))\<rparr>))"

definition cursorEnd :: "int \<Rightarrow> window \<Rightarrow> window option" where
  "cursorEnd count w =
     (if width w = 0 then None
      else scrollToCursor (w\<lparr>cursor := MinInt64
             (sub64 (mul64 (add64 (quo64 (cursor w) (width w)) (MaxInt64 count 1)) (width w)) 1)
             (sub64 (MaxInt64 (length_w w) 1) 1)\<rparr>))"

definition cursorGotoPos :: "Position \<Rightarrow> window \<Rightarrow> window option" where
  "cursorGotoPos pos w =
     (case positionToOffset w pos of
        Inl err \<Rightarrow> Some w
      | Inr off \<Rightarrow>
          let w1 = w\<lparr>cursor := MaxInt64 (MinInt64 off (sub64 (MaxInt64 (length_w w) 1) 1)) 0\<rparr>
          in if cursor w1 < offset w1 then
               (if width w1 = 0 then None
                else Some (w1\<lparr>offset := mul64
                       (sub64 (MaxInt64 (quo64 (cursor w1) (width w1)) (quo64 (height w1) 2))
                              (quo64 (height w1) 2))
                       (width w1)\<rparr>))
             else if cursor w1 \<ge> add64 (offset w1) (mul64 (height w1) (width w1)) then
               (if width w1 = 0 then None
                else
                  let h = sub64 (quo64 (sub64 (add64 (MaxInt64 (length_w w1) 1) (width w1)) 1)
                                       (width w1)) (height w1)
                  in Some (w1\<lparr>offset := mul64
                       (MinInt64
                          (add64 (quo64 (add64 (sub64 (cursor w1)
                                    (mul64 (height w1) (width w1))) (width w1)) (width w1))
                                 (quo64 (height w1) 2))
                          h)
                       (width w1)\<rparr>))
             else Some w1)"

definition cursorGoto :: "event \<Rightarrow> window \<Rightarrow> window option" where
  "cursorGoto e w =
     (case eRange e of
        None \<Rightarrow> Some w
      | Some r \<Rightarrow>
          (case To r of
             Some p \<Rightarrow> cursorGotoPos p w
           | None \<Rightarrow> (case From r of Some p \<Rightarrow> cursorGotoPos p w | None \<Rightarrow> Some w)))"

section \<open>Scrolling and paging\<close>

definition scrollUp :: "int \<Rightarrow> window \<Rightarrow> window option" where
  "scrollUp count w =
     (if width w = 0 then None
      else
        let w1 = w\<lparr>offset := sub64 (offset w)
                   (mul64 (MinInt64 (MaxInt64 count 1) (quo64 (offset w) (width w))) (width w))\<rparr>
        in Some (if cursor w1 \<ge> add64 (offset w1) (mul64 (height w1) (width w1))
                 then w1\<lparr>cursor := sub64 (cursor w1)
                        (mul64 (add64 (quo64 (sub64 (sub64 (cursor w1) (offset w1))
                                  (mul64 (height w1) (width w1))) (width w1)) 1) (width w1))\<rparr>
                 else w1))"

definition scrollDown :: "int \<Rightarrow> window \<Rightarrow> window option" where
  "scrollDown count w =
     (if width w = 0 then None
      else
        let h = MaxInt64 (sub64 (quo64 (sub64 (add64 (MaxInt64 (length_w w) 1) (width w)) 1)
                                       (width w)) (height w)) 0;
            w1 = w\<lparr>offset := add64 (offset w)
                   (mul64 (MinInt64 (MaxInt64 count 1) (sub64 h (quo64 (offset w) (width w))))
                          (width w))\<rparr>
        in Some (if cursor w1 < offset w1
                 then w1\<lparr>cursor := add64 (cursor w1)
                        (MinInt64
                           (mul64 (quo64 (sub64 (add64 (sub64 (offset w1) (cursor w1)) (width w1)) 1)
                                         (width w1)) (width w1))
                           (sub64 (sub64 (MaxInt64 (length_w w1) 1) 1) (cursor w1)))\<rparr>
                 else w1))"

text \<open>
  \<open>getPageJump\<close> is \<open>int64(float64(w.height) * 0.95)\<close>. A height below \<open>2^50\<close> is exact
  as a \<open>float64\<close>, and the rounded product truncates to the integer part of
  \<open>19 * height / 20\<close>, which is what the definition computes.
\<close>

definition getPageJump :: "window \<Rightarrow> int" where
  "getPageJump w = (19 * height w) div 20"

definition pageUp :: "window \<Rightarrow> window option" where
  "pageUp w =
     (let w1 = w\<lparr>offset := MaxInt64 (sub64 (offset w) (mul64 (getPageJump w) (width w))) 0\<rparr>
      in Some (if offset w1 = 0 then w1\<lparr>cursor := 0\<rparr>
               else if cursor w1 \<ge> add64 (offset w1) (mul64 (height w1) (width w1))
               then w1\<lparr>cursor := add64 (offset w1) (mul64 (sub64 (height w1) 1) (width w1))\<rparr>
               else w1))"

definition pageDown :: "window \<Rightarrow> window option" where
  "pageDown w =
     (if width w = 0 then None
      else
        let off = MaxInt64 (mul64 (sub64 (quo64 (sub64 (add64 (length_w w) (width w)) 1) (width w))
                                         (height w)) (width w)) 0;
            w1 = w\<lparr>offset := MinInt64 (add64 (offset w) (mul64 (getPageJump w) (width w))) off\<rparr>
        in Some (if cursor w1 < offset w1 then w1\<lparr>cursor := offset w1\<rparr>
                 else if offset w1 = off
                 then w1\<lparr>cursor := mul64 (sub64 (quo64 (sub64 (add64 (MaxInt64 (length_w w1) 1)
                                  (width w1)) 1) (width w1)) 1) (width w1)\<rparr>
                 else w1))"

definition pageUpHalf :: "window \<Rightarrow> window option" where
  "pageUpHalf w =
     (let w1 = w\<lparr>offset := MaxInt64 (sub64 (offset w)
                  (mul64 (MaxInt64 (quo64 (height w) 2) 1) (width w))) 0\<rparr>
      in Some (if offset w1 = 0 then w1\<lparr>cursor := 0\<rparr>
               else if cursor w1 \<ge> add64 (offset w1) (mul64 (height w1) (width w1))
               then w1\<lparr>cursor := add64 (offset w1) (mul64 (sub64 (height w1) 1) (width w1))\<rparr>
               else w1))"

definition pageDownHalf :: "window \<Rightarrow> window option" where
  "pageDownHalf w =
     (if width w = 0 then None
      else
        let off = MaxInt64 (mul64 (sub64 (quo64 (sub64 (add64 (length_w w) (width w)) 1) (width w))
                                         (height w)) (width w)) 0;
            w1 = w\<lparr>offset := MinInt64 (add64 (offset w)
                   (mul64 (MaxInt64 (quo64 (height w) 2) 1) (width w))) off\<rparr>
        in Some (if cursor w1 < offset w1 then w1\<lparr>cursor := offset w1\<rparr>
                 else if offset w1 = off
                 then w1\<lparr>cursor := mul64 (sub64 (quo64 (sub64 (add64 (MaxInt64 (length_w w1) 1)
                                  (width w1)) 1) (width w1)) 1) (width w1)\<rparr>
                 else w1))"

definition pageTop :: "window \<Rightarrow> window option" where
  "pageTop w = Some (w\<lparr>offset := 0, cursor := 0\<rparr>)"

definition pageEnd :: "window \<Rightarrow> window option" where
  "pageEnd w =
     (if width w = 0 then None
      else Some (w\<lparr>
        offset := MaxInt64 (mul64 (sub64 (quo64 (sub64 (add64 (length_w w) (width w)) 1)
                                                (width w)) (height w)) (width w)) 0,
        cursor := mul64 (sub64 (quo64 (sub64 (add64 (MaxInt64 (length_w w) 1) (width w)) 1)
                                      (width w)) 1) (width w)\<rparr>))"

section \<open>The jump list\<close>

definition isDigit :: "byte \<Rightarrow> bool" where
  "isDigit b \<longleftrightarrow> 0x30 \<le> b \<and> b \<le> 0x39"

definition isWhite :: "byte \<Rightarrow> bool" where
  "isWhite b \<longleftrightarrow> b = 0x00 \<or> b = 0x09 \<or> b = 0x0a \<or> b = 0x0d \<or> b = 0x20"

text \<open>
  The three loops of \<open>jumpTo\<close> over the 100 bytes read (\<open>s = 50\<close>): forward over
  white bytes, backward over digits, forward over digits.
\<close>

function skipWhite :: "byte list \<Rightarrow> nat \<Rightarrow> nat" where
  "skipWhite bs i = (if i < 100 \<and> isWhite (bs ! i) then skipWhite bs (Suc i) else i)"
  by pat_completeness auto
termination
  by (relation "measure (\<lambda>(bs, i). 100 - i)") auto

function backDigits :: "byte list \<Rightarrow> nat \<Rightarrow> nat" where
  "backDigits bs i = (if 0 < i \<and> isDigit (bs ! (i - 1)) then backDigits bs (i - 1) else i)"
  by pat_completeness auto
termination
  by (relation "measure (\<lambda>(bs, i). i)") auto

function fwdDigits :: "byte list \<Rightarrow> nat \<Rightarrow> nat" where
  "fwdDigits bs j = (if j < 100 \<and> isDigit (bs ! j) then fwdDigits bs (Suc j) else j)"
  by pat_completeness auto
termination
  by (relation "measure (\<lambda>(bs, j). 100 - j)") auto

text \<open>
  Each loop is one equation in terms of itself: it is unfolded by hand, one step at
  a time, and not by the simplifier.
\<close>

declare skipWhite.simps [simp del] backDigits.simps [simp del] fwdDigits.simps [simp del]

text \<open>
  \<open>strconv.ParseInt(s, 10, 64)\<close> with its error dropped, on the strings \<open>jumpTo\<close>
  passes: the value of a non-empty string of decimal digits, \<open>2^63 - 1\<close> when the
  value does not fit, and 0 for a string that is no number.
\<close>

definition digitsValue :: "byte list \<Rightarrow> int" where
  "digitsValue s = foldl (\<lambda>acc b. acc * 10 + (uint b - 48)) 0 s"

definition ParseInt :: "byte list \<Rightarrow> int" where
  "ParseInt s =
     (if s = [] \<or> \<not> list_all isDigit s then 0
      else MinInt64 (digitsValue s) 9223372036854775807)"

definition jumpTo :: "window \<Rightarrow> window option" where
  "jumpTo w =
     (case readBytes w (MaxInt64 (sub64 (cursor w) 50) 0) 100 of
        None \<Rightarrow> Some w
      | Some bytes \<Rightarrow>
          let i = skipWhite bytes 50
          in if i = 100 \<or> \<not> isDigit (bytes ! i) then Some w
             else
               let i = backDigits bytes i;
                   j = fwdDigits bytes i
               in if j = 100 then Some w
                  else
                    let off = ParseInt (take (j - i) (drop i bytes))
                    in if off \<le> 0 \<or> length_w w \<le> off then Some w
                       else if width w = 0 then None
                       else Some (w\<lparr>stack := stack w @ [(cursor w, offset w)],
                              cursor := off,
                              offset := MaxInt64 (sub64 (sub64 off (rem64 off (width w)))
                                 (mul64 (MaxInt64 (quo64 (height w) 3) 0) (width w))) 0\<rparr>))"

definition jumpBack :: "window \<Rightarrow> window option" where
  "jumpBack w =
     (if length (stack w) = 0 then Some w
      else Some (w\<lparr>cursor := fst (stack w ! (length (stack w) - 1)),
                   offset := snd (stack w ! (length (stack w) - 1)),
                   stack := take (length (stack w) - 1) (stack w)\<rparr>))"

section \<open>Deleting and changing bytes\<close>

fun deleteByte_loop :: "nat \<Rightarrow> window \<Rightarrow> window" where
  "deleteByte_loop 0 w = w"
| "deleteByte_loop (Suc n) w =
     (let w1 = delete_w (cursor w) w;
          w2 = w1\<lparr>length_w := sub64 (length_w w1) 1\<rparr>
      in deleteByte_loop n
           (if cursor w2 = length_w w2 \<and> cursor w2 > 0
            then w2\<lparr>cursor := sub64 (cursor w2) 1\<rparr> else w2))"

definition deleteByte :: "int \<Rightarrow> window \<Rightarrow> window option" where
  "deleteByte count w =
     (if length_w w = 0 then Some w
      else if width w = 0 then None
      else Some (deleteByte_loop
             (nat (MinInt64
                (MinInt64 (MaxInt64 count 1) (sub64 (width w) (rem64 (cursor w) (width w))))
                (sub64 (length_w w) (cursor w))))
             w))"

fun deletePrevByte_loop :: "nat \<Rightarrow> window \<Rightarrow> window" where
  "deletePrevByte_loop 0 w = w"
| "deletePrevByte_loop (Suc n) w =
     (let w1 = delete_w (sub64 (cursor w) 1) w
      in deletePrevByte_loop n
           (w1\<lparr>cursor := sub64 (cursor w1) 1, length_w := sub64 (length_w w1) 1\<rparr>))"

definition deletePrevByte :: "int \<Rightarrow> window \<Rightarrow> window option" where
  "deletePrevByte count w =
     (if width w = 0 then None
      else Some (deletePrevByte_loop
             (nat (MinInt64 (MaxInt64 count 1) (rem64 (cursor w) (width w)))) w))"

definition increment :: "int \<Rightarrow> window \<Rightarrow> window option" where
  "increment count w =
     (case readBytes w (cursor w) 1 of
        None \<Rightarrow> Some w
      | Some bytes \<Rightarrow>
          let w1 = replace_w (cursor w)
                     (bytes ! 0 + word_of_int (rem64 (MaxInt64 count 1) 256)) w
          in Some (if length_w w1 = 0 then w1\<lparr>length_w := add64 (length_w w1) 1\<rparr> else w1))"

definition decrement :: "int \<Rightarrow> window \<Rightarrow> window option" where
  "decrement count w =
     (case readBytes w (cursor w) 1 of
        None \<Rightarrow> Some w
      | Some bytes \<Rightarrow>
          let w1 = replace_w (cursor w)
                     (bytes ! 0 - word_of_int (rem64 (MaxInt64 count 1) 256)) w
          in Some (if length_w w1 = 0 then w1\<lparr>length_w := add64 (length_w w1) 1\<rparr> else w1))"

section \<open>Insert and replace\<close>

definition startInsert :: "window \<Rightarrow> window option" where
  "startInsert w =
     (let w1 = w\<lparr>append_w := False, extending := False, pending := False\<rparr>
      in Some (if cursor w1 = length_w w1
               then w1\<lparr>append_w := True, extending := True, length_w := add64 (length_w w1) 1\<rparr>
               else w1))"

definition startInsertHead :: "window \<Rightarrow> window option" where
  "startInsertHead w =
     (case cursorHead 0 w of
        None \<Rightarrow> None
      | Some w0 \<Rightarrow>
          let w1 = w0\<lparr>append_w := False, extending := False, pending := False\<rparr>
          in Some (if cursor w1 = length_w w1
                   then w1\<lparr>append_w := True, extending := True,
                           length_w := add64 (length_w w1) 1\<rparr>
                   else w1))"

definition startAppend :: "window \<Rightarrow> window option" where
  "startAppend w =
     (let w1 = w\<lparr>append_w := True, extending := False, pending := False\<rparr>;
          w2 = (if length_w w1 > 0 then w1\<lparr>cursor := add64 (cursor w1) 1\<rparr> else w1);
          w3 = (if cursor w2 = length_w w2
                then w2\<lparr>extending := True, length_w := add64 (length_w w2) 1\<rparr> else w2)
      in scrollToCursor w3)"

definition startAppendEnd :: "window \<Rightarrow> window option" where
  "startAppendEnd w = (case cursorEnd 0 w of None \<Rightarrow> None | Some w1 \<Rightarrow> startAppend w1)"

definition startReplaceByte :: "window \<Rightarrow> window option" where
  "startReplaceByte w =
     Some (w\<lparr>replaceByte := True, append_w := False, extending := False, pending := False\<rparr>)"

definition startReplace :: "window \<Rightarrow> window option" where
  "startReplace w =
     Some (w\<lparr>replaceByte := False, append_w := False, extending := False, pending := False\<rparr>)"

definition exitInsert :: "window \<Rightarrow> window" where
  "exitInsert w =
     (let w1 = w\<lparr>pending := False\<rparr>
      in if append_w w1 then
           (let w2 = (if extending w1 \<and> length_w w1 > 0
                      then w1\<lparr>length_w := sub64 (length_w w1) 1\<rparr> else w1);
                w3 = (if cursor w2 > 0 then w2\<lparr>cursor := sub64 (cursor w2) 1\<rparr> else w2)
            in w3\<lparr>replaceByte := False, append_w := False, extending := False,
                  pending := False\<rparr>)
         else w1)"

definition insertByte :: "mode \<Rightarrow> byte \<Rightarrow> window \<Rightarrow> window option" where
  "insertByte m b w =
     (if pending w then
        (let w1 =
           (if m = Insert then
              (let w1 = insert_w (cursor w) (pendingByte w OR b) w
               in w1\<lparr>cursor := add64 (cursor w1) 1, length_w := add64 (length_w w1) 1\<rparr>)
            else if m = Replace then
              (let w1 = replace_w (cursor w) (pendingByte w OR b) w;
                   w2 = (if length_w w1 = 0 then w1\<lparr>length_w := add64 (length_w w1) 1\<rparr>
                         else w1)
               in if replaceByte w2 then exitInsert w2
                  else
                    (let w3 = w2\<lparr>cursor := add64 (cursor w2) 1\<rparr>
                     in if cursor w3 = length_w w3
                        then w3\<lparr>append_w := True, extending := True,
                                length_w := add64 (length_w w3) 1\<rparr>
                        else w3))
            else w)
         in case scrollToCursor w1 of
              None \<Rightarrow> None
            | Some w2 \<Rightarrow> Some (w2\<lparr>pending := False, pendingByte := 0\<rparr>))
      else Some (w\<lparr>pending := True, pendingByte := push_bit 4 b\<rparr>))"

text \<open>
  \<open>utf8.EncodeRune\<close> of the Go library: the UTF-8 bytes of a rune, those of U+FFFD
  for a surrogate half and for a value outside the Unicode range.
\<close>

definition EncodeRune :: "int \<Rightarrow> byte list" where
  "EncodeRune r =
     (if 0 \<le> r \<and> r \<le> 0x7F then [word_of_int r]
      else if 0 \<le> r \<and> r \<le> 0x7FF then
        [word_of_int (0xC0 + r div 64), word_of_int (0x80 + r mod 64)]
      else if r < 0 \<or> 0x10FFFF < r \<or> (0xD800 \<le> r \<and> r \<le> 0xDFFF) then [0xEF, 0xBF, 0xBD]
      else if r \<le> 0xFFFF then
        [word_of_int (0xE0 + r div 4096), word_of_int (0x80 + r div 64 mod 64),
         word_of_int (0x80 + r mod 64)]
      else
        [word_of_int (0xF0 + r div 262144), word_of_int (0x80 + r div 4096 mod 64),
         word_of_int (0x80 + r div 64 mod 64), word_of_int (0x80 + r mod 64)])"

fun insertBytes :: "mode \<Rightarrow> byte list \<Rightarrow> window \<Rightarrow> window option" where
  "insertBytes m [] w = Some w"
| "insertBytes m (c # cs) w =
     (case insertByte m (drop_bit 4 c) w of
        None \<Rightarrow> None
      | Some w1 \<Rightarrow>
          (case insertByte m (c AND 0x0f) w1 of
             None \<Rightarrow> None
           | Some w2 \<Rightarrow> insertBytes m cs w2))"

definition insertRune :: "mode \<Rightarrow> int \<Rightarrow> window \<Rightarrow> window option" where
  "insertRune m ch w =
     (if m = Insert \<or> m = Replace then
        (if focusText w then insertBytes m (EncodeRune ch) w
         else if 0x30 \<le> ch \<and> ch \<le> 0x39 then insertByte m (word_of_int (ch - 0x30)) w
         else if 0x61 \<le> ch \<and> ch \<le> 0x66 then insertByte m (word_of_int (ch - 0x61 + 0x0a)) w
         else Some w)
      else Some w)"

definition backspace :: "window \<Rightarrow> window option" where
  "backspace w =
     (if pending w then Some (w\<lparr>pending := False, pendingByte := 0\<rparr>)
      else if cursor w > 0 then
        (let w1 = delete_w (sub64 (cursor w) 1) w
         in Some (w1\<lparr>cursor := sub64 (cursor w1) 1, length_w := sub64 (length_w w1) 1\<rparr>))
      else Some w)"

section \<open>Visual selection\<close>

definition startVisual :: "window \<Rightarrow> window option" where
  "startVisual w = Some (w\<lparr>visualStart := cursor w\<rparr>)"

definition switchVisualEnd :: "window \<Rightarrow> window option" where
  "switchVisualEnd w =
     (if visualStart w < 0 then None
      else
        let w1 = w\<lparr>cursor := visualStart w, visualStart := cursor w\<rparr>
        in if cursor w1 < offset w1 then
             (if width w1 = 0 then None
              else Some (w1\<lparr>offset := mul64 (quo64 (cursor w1) (width w1)) (width w1)\<rparr>))
           else scrollToCursor w1)"

definition exitVisual :: "window \<Rightarrow> window option" where
  "exitVisual w = Some (w\<lparr>visualStart := - 1\<rparr>)"

section \<open>Search\<close>

text \<open>
  \<open>bytes.Index\<close> and \<open>bytes.LastIndex\<close> of the Go library: the index of the first
  (last) instance of \<open>sep\<close> in \<open>s\<close>, or \<open>-1\<close> when there is none.
\<close>

fun bytes_Index :: "byte list \<Rightarrow> byte list \<Rightarrow> int" where
  "bytes_Index [] sep = (if sep = [] then 0 else - 1)"
| "bytes_Index (x # xs) sep =
     (if prefix sep (x # xs) then 0
      else (let i = bytes_Index xs sep in if i < 0 then - 1 else i + 1))"

fun bytes_LastIndex :: "byte list \<Rightarrow> byte list \<Rightarrow> int" where
  "bytes_LastIndex [] sep = (if sep = [] then 0 else - 1)"
| "bytes_LastIndex (x # xs) sep =
     (let i = bytes_LastIndex xs sep
      in if 0 \<le> i then i + 1 else if prefix sep (x # xs) then 0 else - 1)"

text \<open>
  The size of the scan window, \<open>MaxInt(int(w.height*w.width)*50, len(target)*500)\<close>.
  \<open>make\<close> panics on a negative length, so a search whose window size came out
  negative is \<open>None\<close>.
\<close>

definition searchSize :: "window \<Rightarrow> byte list \<Rightarrow> int" where
  "searchSize w target =
     MaxInt (mul64 (mul64 (height w) (width w)) 50) (mul64 (int (length target)) 500)"

definition searchForward :: "byte list \<Rightarrow> window \<Rightarrow> window option" where
  "searchForward target w =
     (let base = add64 (cursor w) 1;
          size = searchSize w target
      in if size < 0 then None
         else
           (case readBytes w base size of
              None \<Rightarrow> Some w
            | Some bs \<Rightarrow>
                let i = bytes_Index bs target
                in if i \<ge> 0 then
                     (let w1 = w\<lparr>cursor := add64 base i\<rparr>
                      in if cursor w1 \<ge> add64 (offset w1) (mul64 (height w1) (width w1)) then
                           (if width w1 = 0 then None
                            else Some (w1\<lparr>offset := mul64 (quo64 (add64 (add64 (sub64 (cursor w1)
                                   (mul64 (height w1) (width w1))) (width w1)) 1) (width w1))
                                   (width w1)\<rparr>))
                         else Some w1)
                   else Some w))"

definition searchBackward :: "byte list \<Rightarrow> window \<Rightarrow> window option" where
  "searchBackward target w =
     (let size = searchSize w target;
          base = MaxInt64 0 (sub64 (cursor w) size)
      in if MinInt64 size (cursor w) < 0 then None
         else
           (case readBytes w base (MinInt64 size (cursor w)) of
              None \<Rightarrow> Some w
            | Some bs \<Rightarrow>
                let i = bytes_LastIndex bs target
                in if i \<ge> 0 then
                     (let w1 = w\<lparr>cursor := add64 base i\<rparr>
                      in if cursor w1 < offset w1 then
                           (if width w1 = 0 then None
                            else Some (w1\<lparr>offset := mul64 (quo64 (cursor w1) (width w1))
                                   (width w1)\<rparr>))
                         else Some w1)
                   else Some w))"

definition search :: "byte list \<Rightarrow> bool \<Rightarrow> window \<Rightarrow> window option" where
  "search str forward w = (if forward then searchForward str w else searchBackward str w)"

section \<open>Undo and redo\<close>

fun undo_loop :: "nat \<Rightarrow> window \<Rightarrow> window" where
  "undo_loop 0 w = w"
| "undo_loop (Suc n) w =
     (case history_Undo (history w) of
        None \<Rightarrow> w
      | Some ((b, off, cur), h) \<Rightarrow>
          undo_loop n (w\<lparr>history := h, buffer := b, offset := off, cursor := cur,
                          length_w := buffer_Len b\<rparr>))"

definition undo :: "int \<Rightarrow> window \<Rightarrow> window option" where
  "undo count w = Some (undo_loop (nat (MaxInt64 count 1)) w)"

fun redo_loop :: "nat \<Rightarrow> window \<Rightarrow> window" where
  "redo_loop 0 w = w"
| "redo_loop (Suc n) w =
     (case history_Redo (history w) of
        None \<Rightarrow> w
      | Some ((b, off, cur), h) \<Rightarrow>
          redo_loop n (w\<lparr>history := h, buffer := b, offset := off, cursor := cur,
                          length_w := buffer_Len b\<rparr>))"

definition redo :: "int \<Rightarrow> window \<Rightarrow> window option" where
  "redo count w = Some (redo_loop (nat (MaxInt64 count 1)) w)"

section \<open>The command loop\<close>

text \<open>
  The switch of \<open>run\<close> (lines 95 to 196) for every event type but those of its
  \<open>default\<close> branch. \<open>None\<close> is a panic: the two written out for \<open>Undo\<close> and \<open>Redo\<close>
  outside Normal mode, that of \<open>switchVisualEnd\<close>, and a division by a zero width.
\<close>

definition dispatch :: "event \<Rightarrow> window \<Rightarrow> window option" where
  "dispatch e w =
     (case eType e of
        CursorUp \<Rightarrow> cursorUp (eCount e) w
      | CursorDown \<Rightarrow> cursorDown (eCount e) w
      | CursorLeft \<Rightarrow> cursorLeft (eCount e) w
      | CursorRight \<Rightarrow> cursorRight (eMode e) (eCount e) w
      | CursorPrev \<Rightarrow> cursorPrev (eCount e) w
      | CursorNext \<Rightarrow> cursorNext (eMode e) (eCount e) w
      | CursorHead \<Rightarrow> cursorHead (eCount e) w
      | CursorEnd \<Rightarrow> cursorEnd (eCount e) w
      | CursorGoto \<Rightarrow> cursorGoto e w
      | ScrollUp \<Rightarrow> scrollUp (eCount e) w
      | ScrollDown \<Rightarrow> scrollDown (eCount e) w
      | PageUp \<Rightarrow> pageUp w
      | PageDown \<Rightarrow> pageDown w
      | PageUpHalf \<Rightarrow> pageUpHalf w
      | PageDownHalf \<Rightarrow> pageDownHalf w
      | PageTop \<Rightarrow> pageTop w
      | PageEnd \<Rightarrow> pageEnd w
      | JumpTo \<Rightarrow> jumpTo w
      | JumpBack \<Rightarrow> jumpBack w
      | DeleteByte \<Rightarrow> deleteByte (eCount e) w
      | DeletePrevByte \<Rightarrow> deletePrevByte (eCount e) w
      | Increment \<Rightarrow> increment (eCount e) w
      | Decrement \<Rightarrow> decrement (eCount e) w
      | StartInsert \<Rightarrow> startInsert w
      | StartInsertHead \<Rightarrow> startInsertHead w
      | StartAppend \<Rightarrow> startAppend w
      | StartAppendEnd \<Rightarrow> startAppendEnd w
      | StartReplaceByte \<Rightarrow> startReplaceByte w
      | StartReplace \<Rightarrow> startReplace w
      | ExitInsert \<Rightarrow> Some (exitInsert w)
      | Rune \<Rightarrow> insertRune (eMode e) (eRune e) w
      | Backspace \<Rightarrow> backspace w
      | Delete \<Rightarrow> deleteByte 1 w
      | StartVisual \<Rightarrow> startVisual w
      | SwitchVisualEnd \<Rightarrow> switchVisualEnd w
      | ExitVisual \<Rightarrow> exitVisual w
      | SwitchFocus \<Rightarrow>
          (let w1 = w\<lparr>focusText := \<not> focusText w\<rparr>;
               w2 = (if pending w1 then w1\<lparr>pending := False, pendingByte := 0\<rparr> else w1)
           in Some (w2\<lparr>changedTick := changedTick w2 + 1\<rparr>))
      | Undo \<Rightarrow> (if eMode e \<noteq> Normal then None else undo (eCount e) w)
      | Redo \<Rightarrow> (if eMode e \<noteq> Normal then None else redo (eCount e) w)
      | ExecuteSearch \<Rightarrow> search (eArg e) (eRune e = 0x2f) w
      | NextSearch \<Rightarrow> search (eArg e) (eRune e = 0x2f) w
      | PreviousSearch \<Rightarrow> search (eArg e) (eRune e \<noteq> 0x2f) w
      | OtherEvent \<Rightarrow> Some w)"

text \<open>
  What \<open>run\<close> does after the switch (lines 197 to 206): the checkpoint pushed to the
  history, if any, and \<open>prevChanged\<close>. \<open>w0\<close> is the window before the command, \<open>w\<close>
  the window after it.
\<close>

definition checkpoint_after :: "event \<Rightarrow> window \<Rightarrow> window \<Rightarrow> window" where
  "checkpoint_after e w0 w =
     (let changed = (changedTick w0 \<noteq> changedTick w);
          w1 = (if eType e \<noteq> Undo \<and> eType e \<noteq> Redo then
                  (if eMode e = Normal \<and> changed \<or> eType e = ExitInsert \<and> prevChanged w
                   then w\<lparr>history := history_Push (history w) (buffer w, offset w, cursor w)\<rparr>
                   else if eMode e \<noteq> Normal \<and> prevChanged w \<and> \<not> changed
                           \<and> isNavigation (eType e)
                   then w\<lparr>history := history_Push (history w) (buffer w, offset w0, cursor w0)\<rparr>
                   else w)
                else w)
      in w1\<lparr>prevChanged := changed\<rparr>)"

text \<open>One iteration of the loop of \<open>run\<close>, and the loop over the events of the channel.\<close>

definition run_event :: "event \<Rightarrow> window \<Rightarrow> window option" where
  "run_event e w =
     (if eType e = OtherEvent then Some w
      else (case dispatch e w of
              None \<Rightarrow> None
            | Some w1 \<Rightarrow> Some (checkpoint_after e w w1)))"

fun run :: "event list \<Rightarrow> window \<Rightarrow> window option" where
  "run [] w = Some w"
| "run (e # es) w = (case run_event e w of None \<Rightarrow> None | Some w1 \<Rightarrow> run es w1)"

section \<open>What a command leaves alone\<close>

text \<open>
  \<open>kept w w'\<close>: the content, the change counter, the history and \<open>prevChanged\<close> of
  \<open>w'\<close> are those of \<open>w\<close>.
\<close>

abbreviation (input) kept :: "window \<Rightarrow> window \<Rightarrow> bool" where
  "kept w w' \<equiv> buffer w' = buffer w \<and> changedTick w' = changedTick w \<and>
     history w' = history w \<and> prevChanged w' = prevChanged w"

section \<open>Example windows\<close>

text \<open>
  Concrete windows on which the theorems below are instantiated: ten bytes shown
  four to a row on two rows, the cursor on the last byte but one row.
\<close>

definition tenBytes :: "byte list" where
  "tenBytes = [0x73, 0x65, 0x65, 0x20, 0x6c, 0x69, 0x6e, 0x65, 0x20, 0xff]"

definition smallWindow :: window where
  "smallWindow = (newWindow tenBytes)\<lparr>width := 4, height := 2, offset := 4, cursor := 9\<rparr>"

definition switchFocusEvent :: event where
  "switchFocusEvent = \<lparr>eType = SwitchFocus, eMode = Normal, eCount = 0, eRune = 0, eArg = [],
     eRange = None\<rparr>"

definition ev :: "eventType \<Rightarrow> mode \<Rightarrow> int \<Rightarrow> int \<Rightarrow> event" where
  "ev t m c r = \<lparr>eType = t, eMode = m, eCount = c, eRune = r, eArg = [], eRange = None\<rparr>"

definition emptyWindow :: window where
  "emptyWindow = (newWindow [])\<lparr>width := 4, height := 2\<rparr>"

text \<open>
  Keys typed into a window on empty content: \<open>i\<close>, \<open>4\<close>, \<open>1\<close>, cursor up, escape,
  \<open>x\<close>, \<open>u\<close>; and the window they lead to, whose cursor is one past its only byte.
\<close>

definition pastEndEvents :: "event list" where
  "pastEndEvents = [ev StartInsert Normal 0 0, ev Rune Insert 0 0x34, ev Rune Insert 0 0x31,
     ev CursorUp Insert 0 0, ev ExitInsert Insert 0 0, ev DeleteByte Normal 0 0,
     ev Undo Normal 0 0]"

definition onePastEnd :: window where
  "onePastEnd = \<lparr>buffer = [0x41], changedTick = 2, prevChanged = False,
     history = \<lparr>entries = [([], 0, 0), ([0x41], 0, 1), ([], 0, 0)], index = 1\<rparr>,
     height = 2, width = 4, offset = 0, cursor = 1, length_w = 1, stack = [],
     append_w = False, replaceByte = False, extending = False, pending = False,
     pendingByte = 0, visualStart = - 1, focusText = False\<rparr>"

text \<open>
  Windows for \<open>jumpTo\<close>: fifty bytes \<open>x\<close> and then the digit run \<open>0\<close>, the cursor on it;
  the text \<open>see line 42 \<close> at the start of 60 bytes, the cursor on the \<open>4\<close>; the same
  text after 48 other bytes, the cursor on the \<open>4\<close>.
\<close>

definition zeroRunWindow :: window where
  "zeroRunWindow = (newWindow (replicate 50 0x78 @ [0x30, 0x20]))\<lparr>width := 16, height := 4,
     offset := 0, cursor := 50\<rparr>"

definition seeLine42 :: "byte list" where
  "seeLine42 = [0x73, 0x65, 0x65, 0x20, 0x6c, 0x69, 0x6e, 0x65, 0x20, 0x34, 0x32, 0x20]"

definition nearStartWindow :: window where
  "nearStartWindow = (newWindow (seeLine42 @ replicate 48 0x2e))\<lparr>width := 16, height := 4,
     offset := 0, cursor := 9\<rparr>"

definition line42Window :: window where
  "line42Window = (newWindow (replicate 48 0x2e @ seeLine42))\<lparr>width := 16, height := 4,
     offset := 48, cursor := 57\<rparr>"

text \<open>
  Thirty-two bytes shown sixteen to a row on two rows, the cursor at the head of the
  second row.
\<close>

definition twoRows :: window where
  "twoRows = (newWindow (replicate 32 0x2e))\<lparr>width := 16, height := 2, offset := 0,
     cursor := 16\<rparr>"

section \<open>Arithmetic within the 64-bit range\<close>

lemma i64_id: "is64 x \<Longrightarrow> i64 x = x"
  unfolding i64_def is64_def by (simp add: mod_pos_pos_trivial)

lemma is64_i64: "is64 (i64 x)"
  unfolding i64_def is64_def
  using pos_mod_bound [of 18446744073709551616 "x + 9223372036854775808"]
        pos_mod_sign [of 18446744073709551616 "x + 9223372036854775808"]
  by simp

lemma add64_id: "is64 (a + b) \<Longrightarrow> add64 a b = a + b"
  by (simp add: add64_def i64_id)

lemma sub64_id: "is64 (a - b) \<Longrightarrow> sub64 a b = a - b"
  by (simp add: sub64_def i64_id)

lemma mul64_id: "is64 (a * b) \<Longrightarrow> mul64 a b = a * b"
  by (simp add: mul64_def i64_id)

lemma neg64_id: "is64 (- a) \<Longrightarrow> neg64 a = - a"
  by (simp add: neg64_def i64_id)

lemma quo64_pos: "0 \<le> a \<Longrightarrow> 0 < b \<Longrightarrow> is64 a \<Longrightarrow> quo64 a b = a div b"
proof -
  assume a: "0 \<le> a" and b: "0 < b" and r: "is64 a"
  have "0 \<le> a div b" using a b by (simp add: pos_imp_zdiv_nonneg_iff)
  moreover have "a div b \<le> a" using a b
    by (metis div_by_1 int_one_le_iff_zero_less zdiv_mono2 zero_less_one)
  ultimately have "is64 (a div b)" using r by (simp add: is64_def)
  moreover have "sgn a * sgn b * (\<bar>a\<bar> div \<bar>b\<bar>) = a div b"
    using a b by (cases "a = 0") (simp_all add: sgn_if)
  ultimately show ?thesis by (simp add: quo64_def i64_id)
qed

lemma rem64_pos: "0 \<le> a \<Longrightarrow> 0 < b \<Longrightarrow> rem64 a b = a mod b"
  by (cases "a = 0") (simp_all add: rem64_def sgn_if)

lemma scrollToCursor_offset:
  "width w \<noteq> 0 \<Longrightarrow> \<exists>off. scrollToCursor w = Some (w\<lparr>offset := off\<rparr>)"
proof -
  assume "width w \<noteq> 0"
  moreover have "w = w\<lparr>offset := offset w\<rparr>" by simp
  ultimately show ?thesis unfolding scrollToCursor_def by metis
qed

section \<open>The jump stack\<close>

text \<open>
  Claim C8. With a non-empty jump stack, \<open>jumpBack\<close> sets cursor and viewport offset
  to the pair pushed last and removes that pair from the stack, changing no other
  field; with an empty jump stack it changes nothing.
\<close>

theorem jumpBack_pops:
  "(stack w = [] \<longrightarrow> jumpBack w = Some w) \<and>
   (\<forall>ps c off. stack w = ps @ [(c, off)] \<longrightarrow>
      jumpBack w = Some (w\<lparr>cursor := c, offset := off, stack := ps\<rparr>))"
  by (auto simp: jumpBack_def nth_append)

theorem jumpBack_pops_witness:
  "stack (smallWindow\<lparr>stack := [(3, 0), (7, 4)]\<rparr>) = [(3, 0)] @ [(7, 4)] \<and>
   jumpBack (smallWindow\<lparr>stack := [(3, 0), (7, 4)]\<rparr>) =
     Some (smallWindow\<lparr>stack := [(3, 0), (7, 4)], cursor := 7, offset := 4, stack := [(3, 0)]\<rparr>)"
  using jumpBack_pops [of "smallWindow\<lparr>stack := [(3, 0), (7, 4)]\<rparr>"]
  by simp

section \<open>Switching the focus\<close>

lemma dispatch_SwitchFocus:
  "eType e = SwitchFocus \<Longrightarrow> dispatch e w = Some (
     (if pending w then w\<lparr>focusText := \<not> focusText w, pending := False, pendingByte := 0\<rparr>
      else w\<lparr>focusText := \<not> focusText w\<rparr>)\<lparr>changedTick := changedTick w + 1\<rparr>)"
  by (simp add: dispatch_def Let_def)

text \<open>
  Claim C10. The \<open>SwitchFocus\<close> command toggles \<open>focusText\<close> and cancels a pending
  nibble (the flag and the stashed byte); content, length, cursor and viewport
  offset stay as they are.
\<close>

theorem switchFocus_frame:
  assumes "eType e = SwitchFocus"
  shows "\<exists>w'. run_event e w = Some w' \<and>
           focusText w' = (\<not> focusText w) \<and>
           \<not> pending w' \<and>
           (pending w \<longrightarrow> pendingByte w' = 0) \<and>
           (\<not> pending w \<longrightarrow> pendingByte w' = pendingByte w) \<and>
           buffer w' = buffer w \<and> length_w w' = length_w w \<and>
           cursor w' = cursor w \<and> offset w' = offset w"
  using assms
  by (simp add: run_event_def dispatch_SwitchFocus checkpoint_after_def Let_def)

theorem switchFocus_frame_witness:
  "\<exists>w'. run_event switchFocusEvent (smallWindow\<lparr>pending := True, pendingByte := 0xa0\<rparr>) = Some w' \<and>
      focusText w' \<and> \<not> pending w' \<and> pendingByte w' = 0 \<and>
      buffer w' = tenBytes \<and> length_w w' = 10 \<and> cursor w' = 9 \<and> offset w' = 4"
  using switchFocus_frame [of switchFocusEvent "smallWindow\<lparr>pending := True, pendingByte := 0xa0\<rparr>"]
  by (auto simp: switchFocusEvent_def smallWindow_def newWindow_def buffer_Len_def tenBytes_def)

section \<open>Resolving a position\<close>

lemma clamp_rel:
  assumes c: "0 \<le> c" "is64 c" and m: "0 \<le> m" "is64 m" and n: "is64 n"
  shows "0 \<le> add64 c (max (min n (sub64 m c)) (neg64 c))"
    and "add64 c (max (min n (sub64 m c)) (neg64 c)) \<le> m"
proof -
  have s: "sub64 m c = m - c" using c m by (intro sub64_id) (simp add: is64_def)
  have g: "neg64 c = - c" using c by (intro neg64_id) (simp add: is64_def)
  let ?d = "max (min n (m - c)) (- c)"
  have d: "- c \<le> ?d" "?d \<le> m - c" using m by auto
  hence "is64 (c + ?d)" using c m unfolding is64_def by linarith
  hence a: "add64 c ?d = c + ?d" by (rule add64_id)
  show "0 \<le> add64 c (max (min n (sub64 m c)) (neg64 c))" using d a by (simp add: s g)
  show "add64 c (max (min n (sub64 m c)) (neg64 c)) \<le> m" using d a by (simp add: s g)
qed

lemma maxlen_pred:
  assumes "is64 l"
  shows "sub64 (max l 1) 1 = max l 1 - 1" and "0 \<le> max l 1 - 1" and "is64 (max l 1 - 1)"
proof -
  show "sub64 (max l 1) 1 = max l 1 - 1" using assms by (intro sub64_id) (simp add: is64_def)
  show "0 \<le> max l 1 - 1" by simp
  show "is64 (max l 1 - 1)" using assms by (simp add: is64_def)
qed

lemma pos_Absolute:
  assumes "is64 (length_w w)"
  shows "\<exists>off. positionToOffset w (Absolute n) = Inr off \<and> 0 \<le> off \<and> off \<le> max (length_w w) 1 - 1"
  using maxlen_pred [OF assms] by (simp add: positionToOffset_def)

lemma pos_Relative:
  assumes "is64 (length_w w)" "0 \<le> cursor w" "is64 (cursor w)" "is64 n"
  shows "\<exists>off. positionToOffset w (Relative n) = Inr off \<and> 0 \<le> off \<and> off \<le> max (length_w w) 1 - 1"
  using maxlen_pred [OF assms(1)] clamp_rel [OF assms(2,3) _ _ assms(4), of "max (length_w w) 1 - 1"]
  by (simp add: positionToOffset_def)

lemma pos_End:
  assumes "is64 (length_w w)" "is64 n"
  shows "\<exists>off. positionToOffset w (End n) = Inr off \<and> 0 \<le> off \<and> off \<le> max (length_w w) 1 - 1"
proof -
  let ?m = "max (length_w w) 1 - 1"
  note m = maxlen_pred [OF assms(1)]
  have g: "neg64 ?m = - ?m" using m by (intro neg64_id) (simp add: is64_def)
  let ?d = "max (min n 0) (- ?m)"
  have d: "- ?m \<le> ?d" "?d \<le> 0" by auto
  hence "is64 (?m + ?d)" using m unfolding is64_def by linarith
  hence a: "add64 ?m ?d = ?m + ?d" by (rule add64_id)
  have "0 \<le> ?m + ?d" "?m + ?d \<le> ?m" using d by linarith+
  thus ?thesis using a by (simp add: positionToOffset_def m g)
qed

lemma pos_VisualStart:
  assumes "is64 (length_w w)" "0 \<le> visualStart w" "is64 (visualStart w)" "is64 n"
  shows "\<exists>off. positionToOffset w (VisualStart n) = Inr off \<and> 0 \<le> off \<and> off \<le> max (length_w w) 1 - 1"
  using maxlen_pred [OF assms(1)] clamp_rel [OF assms(2,3) _ _ assms(4), of "max (length_w w) 1 - 1"]
    assms(2)
  by (simp add: positionToOffset_def)

lemma pos_VisualEnd:
  assumes "is64 (length_w w)" "0 \<le> cursor w" "is64 (cursor w)" "is64 n" "0 \<le> visualStart w"
  shows "\<exists>off. positionToOffset w (VisualEnd n) = Inr off \<and> 0 \<le> off \<and> off \<le> max (length_w w) 1 - 1"
  using maxlen_pred [OF assms(1)] clamp_rel [OF assms(2,3) _ _ assms(4), of "max (length_w w) 1 - 1"]
    assms(5)
  by (simp add: positionToOffset_def)

lemma pos_Visual_fails:
  "isl (positionToOffset w (VisualStart n)) \<longleftrightarrow> visualStart w < 0"
  "isl (positionToOffset w (VisualEnd n)) \<longleftrightarrow> visualStart w < 0"
  by (simp_all add: positionToOffset_def)

text \<open>
  Claim C9. In a state with \<open>0 \<le> cursor < max(length, 1)\<close> (and a visual anchor that
  is \<open>-1\<close> or a byte index), resolving an \<open>Absolute\<close>, \<open>Relative\<close> or \<open>End\<close>
  position never fails and gives an offset between 0 and \<open>max(length, 1) - 1\<close>;
  resolving a \<open>VisualStart\<close> or \<open>VisualEnd\<close> position fails exactly when
  \<open>visualStart\<close> is \<open>-1\<close>, and otherwise gives an offset in the same range.
\<close>

theorem positionToOffset_range:
  assumes "0 \<le> cursor w" and "cursor w < max (length_w w) 1" and "is64 (length_w w)"
      and "- 1 \<le> visualStart w" and "is64 (visualStart w)" and "is64 n"
  shows "(\<forall>p \<in> {Absolute n, Relative n, End n}.
            \<exists>off. positionToOffset w p = Inr off \<and> 0 \<le> off \<and> off \<le> max (length_w w) 1 - 1) \<and>
         (\<forall>p \<in> {VisualStart n, VisualEnd n}.
            (isl (positionToOffset w p) \<longleftrightarrow> visualStart w = - 1) \<and>
            (visualStart w \<noteq> - 1 \<longrightarrow>
              (\<exists>off. positionToOffset w p = Inr off \<and> 0 \<le> off \<and> off \<le> max (length_w w) 1 - 1)))"
proof -
  have c: "is64 (cursor w)" using assms(1,2,3) unfolding is64_def by linarith
  have v: "visualStart w < 0 \<longleftrightarrow> visualStart w = - 1" using assms(4) by auto
  have v': "visualStart w \<noteq> - 1 \<Longrightarrow> 0 \<le> visualStart w" using assms(4) by auto
  show ?thesis
    using pos_Absolute [OF assms(3), of n] pos_Relative [OF assms(3,1) c assms(6)]
      pos_End [OF assms(3,6)] pos_VisualStart [OF assms(3) v' assms(5,6)]
      pos_VisualEnd [OF assms(3,1) c assms(6) v'] pos_Visual_fails [of w n] v
    by blast
qed

theorem positionToOffset_range_witness:
  "positionToOffset smallWindow (Absolute 100) = Inr 9 \<and>
   positionToOffset smallWindow (Relative (- 3)) = Inr 6 \<and>
   positionToOffset smallWindow (End (- 100)) = Inr 0 \<and>
   isl (positionToOffset smallWindow (VisualStart 100)) \<and>
   isl (positionToOffset smallWindow (VisualEnd 100)) \<and>
   visualStart smallWindow = - 1"
  using positionToOffset_range [of smallWindow 100]
  by (simp add: positionToOffset_def smallWindow_def newWindow_def buffer_Len_def tenBytes_def
      is64_def add64_def sub64_def neg64_def i64_def)

section \<open>Increment and decrement\<close>

lemma readBytes_one:
  assumes "0 \<le> c"
  shows "readBytes w c 1 = Some [if nat c < length (buffer w) then buffer w ! nat c else 0]"
  using assms
  by (auto simp: readBytes_def buffer_ReadAt_def take_Suc hd_drop_conv_nth split: list.splits)

lemma uint_add_byte: "uint ((a::byte) + word_of_int k) = (uint a + k mod 256) mod 256"
  by (simp add: uint_word_ariths uint_word_of_int mod_add_right_eq)

lemma uint_sub_byte: "uint ((a::byte) - word_of_int k) = (uint a - k mod 256) mod 256"
  by (simp add: uint_word_ariths uint_word_of_int mod_diff_right_eq)

text \<open>
  Claim C7. \<open>increment(count)\<close> replaces the byte at the cursor with
  \<open>(old + max(count, 1) mod 256) mod 256\<close> and \<open>decrement(count)\<close> with
  \<open>(old - max(count, 1) mod 256) mod 256\<close>, in wrapping byte arithmetic (\<open>0xFF + 1\<close> is
  \<open>0x00\<close>, \<open>0x00 - 1\<close> is \<open>0xFF\<close>); on empty content, where the byte read is 0, the
  write establishes length 1. The window is one whose length is that of its content
  and whose cursor is in range.
\<close>

theorem increment_decrement_wrap:
  fixes w :: window and count :: int
  assumes "0 \<le> cursor w" and "cursor w < max (length_w w) 1"
      and "length_w w = int (length (buffer w))"
  defines "old \<equiv> (if buffer w = [] then 0 else buffer w ! nat (cursor w))"
  defines "k \<equiv> max count 1 mod 256"
  shows "increment count w = Some (w\<lparr>
            buffer := (if buffer w = [] then [old + word_of_int k]
                       else (buffer w)[nat (cursor w) := old + word_of_int k]),
            changedTick := changedTick w + 1,
            length_w := max (length_w w) 1\<rparr>) \<and>
         uint (old + word_of_int k) = (uint old + k) mod 256 \<and>
         decrement count w = Some (w\<lparr>
            buffer := (if buffer w = [] then [old - word_of_int k]
                       else (buffer w)[nat (cursor w) := old - word_of_int k]),
            changedTick := changedTick w + 1,
            length_w := max (length_w w) 1\<rparr>) \<and>
         uint (old - word_of_int k) = (uint old - k) mod 256"
proof -
  have r: "rem64 (max count 1) 256 = k" by (simp add: k_def rem64_pos)
  have kk: "k mod 256 = k" by (simp add: k_def)
  have u1: "uint (old + word_of_int k) = (uint old + k) mod 256"
    using uint_add_byte [of old k] kk by simp
  have u2: "uint (old - word_of_int k) = (uint old - k) mod 256"
    using uint_sub_byte [of old k] kk by simp
  have ne: "nat (cursor w) < length (buffer w)" if "buffer w \<noteq> []"
  proof -
    have "0 < length (buffer w)" using that by simp
    thus ?thesis using assms(1,2,3) by linarith
  qed
  have z: "cursor w = 0" if "buffer w = []"
    using that assms(1,2,3) by simp
  have rd: "readBytes w (cursor w) 1 = Some [old]"
    using assms(1) ne by (auto simp: readBytes_one old_def)
  have a: "add64 0 1 = 1" by (simp add: add64_def i64_def)
  have rp: "buffer_Replace (buffer w) (cursor w) c =
      (if buffer w = [] then [c] else (buffer w)[nat (cursor w) := c])" for c
    using assms(1) ne z by (auto simp: buffer_Replace_def)
  have m: "(if length_w w = 0 then add64 (length_w w) 1 else length_w w) = max (length_w w) 1"
  proof (cases "buffer w = []")
    case True thus ?thesis using assms(3) a by simp
  next
    case False
    hence "1 \<le> int (length (buffer w))" by (cases "buffer w") simp_all
    hence "length_w w \<noteq> 0" "max (length_w w) 1 = length_w w" using assms(3) by linarith+
    thus ?thesis by simp
  qed
  have i: "increment count w = Some (w\<lparr>
            buffer := (if buffer w = [] then [old + word_of_int k]
                       else (buffer w)[nat (cursor w) := old + word_of_int k]),
            changedTick := changedTick w + 1,
            length_w := max (length_w w) 1\<rparr>)"
    using m by (cases "length_w w = 0") (simp_all add: increment_def rd r replace_w_def rp Let_def)
  have d: "decrement count w = Some (w\<lparr>
            buffer := (if buffer w = [] then [old - word_of_int k]
                       else (buffer w)[nat (cursor w) := old - word_of_int k]),
            changedTick := changedTick w + 1,
            length_w := max (length_w w) 1\<rparr>)"
    using m by (cases "length_w w = 0") (simp_all add: decrement_def rd r replace_w_def rp Let_def)
  show ?thesis using i d u1 u2 by blast
qed

theorem increment_decrement_wrap_witness:
  "increment 1 smallWindow = Some (smallWindow\<lparr>buffer := tenBytes[9 := 0x00], changedTick := 1\<rparr>) \<and>
   decrement 1 (smallWindow\<lparr>buffer := tenBytes[9 := 0x00]\<rparr>)
     = Some (smallWindow\<lparr>buffer := tenBytes[9 := 0xff], changedTick := 1\<rparr>) \<and>
   increment 0 (newWindow []) = Some ((newWindow [])\<lparr>buffer := [1], changedTick := 1, length_w := 1\<rparr>)"
  using increment_decrement_wrap [of smallWindow 1]
        increment_decrement_wrap [of "smallWindow\<lparr>buffer := tenBytes[9 := 0x00]\<rparr>" 1]
        increment_decrement_wrap [of "newWindow []" 0]
  by (simp add: smallWindow_def newWindow_def tenBytes_def buffer_Len_def)

section \<open>Assembling a byte from two nibbles\<close>

text \<open>
  Claim C3. In Insert mode, with no nibble pending and the focus not on the text,
  the rune \<open>a\<close> followed by the rune \<open>f\<close> inserts exactly one byte, \<open>0xAF\<close>, at the
  cursor, advances the cursor by 1, increments the length by 1 and leaves no nibble
  pending; the first rune alone changes neither content, cursor nor length.
\<close>

theorem insertRune_af:
  assumes "\<not> pending w" and "\<not> focusText w"
      and "0 \<le> cursor w" and "cursor w \<le> int (length (buffer w))"
      and "cursor w < 9223372036854775807"
      and "0 \<le> length_w w" and "length_w w < 9223372036854775807"
      and "0 < width w"
  shows "\<exists>w1 w2. insertRune Insert 0x61 w = Some w1 \<and> insertRune Insert 0x66 w1 = Some w2 \<and>
           buffer w1 = buffer w \<and> cursor w1 = cursor w \<and> length_w w1 = length_w w \<and>
           buffer w2 = take (nat (cursor w)) (buffer w) @ [0xaf] @ drop (nat (cursor w)) (buffer w) \<and>
           cursor w2 = cursor w + 1 \<and> length_w w2 = length_w w + 1 \<and>
           \<not> pending w2 \<and> pendingByte w2 = 0"
proof -
  let ?w1 = "w\<lparr>pending := True, pendingByte := push_bit 4 (word_of_int (0x61 - 0x61 + 0x0a))\<rparr>"
  have 1: "insertRune Insert 0x61 w = Some ?w1"
    using assms(1,2) by (simp add: insertRune_def insertByte_def)
  have c: "add64 (cursor w) 1 = cursor w + 1" using assms(3,5) by (intro add64_id) (simp add: is64_def)
  have l: "add64 (length_w w) 1 = length_w w + 1" using assms(6,7) by (intro add64_id) (simp add: is64_def)
  let ?v = "w\<lparr>pending := True, pendingByte := 160,
      buffer := take (nat (cursor w)) (buffer w) @ [0xaf] @ drop (nat (cursor w)) (buffer w),
      changedTick := changedTick w + 1, cursor := cursor w + 1, length_w := length_w w + 1\<rparr>"
  have "width ?v \<noteq> 0" using assms(8) by simp
  from scrollToCursor_offset [OF this] obtain off where s: "scrollToCursor ?v = Some (?v\<lparr>offset := off\<rparr>)"
    by blast
  let ?w2 = "?v\<lparr>offset := off, pending := False, pendingByte := 0\<rparr>"
  have 2: "insertRune Insert 0x66 ?w1 = Some ?w2"
    using assms(2,3,4) c l s
    by (simp add: insertRune_def insertByte_def insert_w_def buffer_Insert_def Let_def)
  have b: "buffer ?w2 = take (nat (cursor w)) (buffer w) @ [0xaf] @ drop (nat (cursor w)) (buffer w)"
    and r: "cursor ?w2 = cursor w + 1" "length_w ?w2 = length_w w + 1" "\<not> pending ?w2" "pendingByte ?w2 = 0"
    by simp_all
  show ?thesis using 1 2 b r by simp
qed

theorem insertRune_af_witness:
  "\<exists>w1 w2. insertRune Insert 0x61 smallWindow = Some w1 \<and> insertRune Insert 0x66 w1 = Some w2 \<and>
     buffer w2 = [0x73, 0x65, 0x65, 0x20, 0x6c, 0x69, 0x6e, 0x65, 0x20, 0xaf, 0xff] \<and>
     cursor w2 = 10 \<and> length_w w2 = 11 \<and> \<not> pending w2"
  using insertRune_af [of smallWindow]
  by (simp add: smallWindow_def newWindow_def tenBytes_def buffer_Len_def) blast

section \<open>Entering and leaving insert at the end of the content\<close>

lemma startInsert_exitInsert:
  assumes "cursor w = 0" and "length_w w = 0"
  shows "startInsert w = Some (w\<lparr>append_w := True, extending := True, pending := False,
           length_w := 1\<rparr>)"
    and "length_w (exitInsert (w\<lparr>append_w := True, extending := True, pending := False,
           length_w := 1\<rparr>)) = 0"
    and "cursor (exitInsert (w\<lparr>append_w := True, extending := True, pending := False,
           length_w := 1\<rparr>)) = 0"
  using assms by (simp_all add: startInsert_def exitInsert_def add64_def sub64_def i64_def Let_def)

lemma startAppend_exitInsert:
  assumes "0 \<le> cursor w" and "cursor w = max (length_w w) 1 - 1" and "0 \<le> length_w w"
      and "length_w w < 9223372036854775807" and "width w \<noteq> 0"
  shows "\<exists>off. startAppend w = Some (w\<lparr>append_w := True, extending := True, pending := False,
           cursor := length_w w, length_w := length_w w + 1, offset := off\<rparr>)"
    and "length_w (exitInsert (w\<lparr>append_w := True, extending := True, pending := False,
           cursor := length_w w, length_w := length_w w + 1, offset := off\<rparr>)) = length_w w"
    and "cursor (exitInsert (w\<lparr>append_w := True, extending := True, pending := False,
           cursor := length_w w, length_w := length_w w + 1, offset := off\<rparr>)) = cursor w"
proof -
  have l: "add64 (length_w w) 1 = length_w w + 1"
    using assms(3,4) by (intro add64_id) (simp add: is64_def)
  have l': "sub64 (length_w w + 1) 1 = length_w w"
    using assms(3,4) sub64_id [of "length_w w + 1" 1] by (simp add: is64_def)
  have c: "add64 (cursor w) 1 = cursor w + 1"
    using assms(1,2,4) by (intro add64_id) (simp add: is64_def)
  have c': "sub64 (length_w w) 1 = length_w w - 1"
    using assms(3,4) by (intro sub64_id) (simp add: is64_def)
  let ?v = "w\<lparr>append_w := True, extending := True, pending := False,
           cursor := length_w w, length_w := length_w w + 1\<rparr>"
  have "width ?v \<noteq> 0" using assms(5) by simp
  from scrollToCursor_offset [OF this]
  obtain o' where s: "scrollToCursor ?v = Some (?v\<lparr>offset := o'\<rparr>)" by blast
  have "startAppend w = Some (?v\<lparr>offset := o'\<rparr>)"
  proof (cases "length_w w = 0")
    case True
    hence "cursor w = 0" using assms(2) by simp
    thus ?thesis using True s l by (cases w) (simp add: startAppend_def Let_def)
  next
    case False
    hence p: "0 < length_w w" "cursor w + 1 = length_w w" using assms(2,3) by auto
    thus ?thesis using s l c by (cases w) (simp add: startAppend_def Let_def)
  qed
  thus "\<exists>off. startAppend w = Some (w\<lparr>append_w := True, extending := True, pending := False,
           cursor := length_w w, length_w := length_w w + 1, offset := off\<rparr>)" by auto
  show "length_w (exitInsert (w\<lparr>append_w := True, extending := True, pending := False,
           cursor := length_w w, length_w := length_w w + 1, offset := off\<rparr>)) = length_w w"
    using assms(3) l' by (simp add: exitInsert_def Let_def)
  show "cursor (exitInsert (w\<lparr>append_w := True, extending := True, pending := False,
           cursor := length_w w, length_w := length_w w + 1, offset := off\<rparr>)) = cursor w"
    using assms(2,3) c' by (auto simp: exitInsert_def Let_def)
qed

text \<open>
  Claim C2, amended. In a state whose cursor is in range (\<open>0 \<le> cursor < max(length, 1)\<close>),
  entering insert with the cursor at the end of the content (\<open>cursor = length\<close>, that
  is, on empty content) and entering append with the cursor on the last byte (or on
  empty content) both open the virtual trailing slot, incrementing the length; leaving
  insert with no byte committed then restores length and cursor to their values
  before entry.
\<close>

theorem insert_append_roundtrip:
  assumes "0 \<le> cursor w" and "cursor w < max (length_w w) 1"
      and "0 \<le> length_w w" and "length_w w < 9223372036854775807" and "0 < width w"
  shows "(cursor w = length_w w \<longrightarrow>
            (\<exists>w1. startInsert w = Some w1 \<and> append_w w1 \<and> extending w1 \<and>
               length_w w1 = length_w w + 1 \<and> cursor w1 = cursor w \<and>
               length_w (exitInsert w1) = length_w w \<and> cursor (exitInsert w1) = cursor w)) \<and>
         (cursor w = max (length_w w) 1 - 1 \<longrightarrow>
            (\<exists>w1. startAppend w = Some w1 \<and> append_w w1 \<and> extending w1 \<and>
               length_w w1 = length_w w + 1 \<and> cursor w1 = length_w w \<and>
               length_w (exitInsert w1) = length_w w \<and> cursor (exitInsert w1) = cursor w))"
proof (intro conjI impI)
  assume e: "cursor w = length_w w"
  hence z: "cursor w = 0" "length_w w = 0" using assms(1,2) by auto
  show "\<exists>w1. startInsert w = Some w1 \<and> append_w w1 \<and> extending w1 \<and>
               length_w w1 = length_w w + 1 \<and> cursor w1 = cursor w \<and>
               length_w (exitInsert w1) = length_w w \<and> cursor (exitInsert w1) = cursor w"
    using startInsert_exitInsert [OF z] z by simp
next
  assume e: "cursor w = max (length_w w) 1 - 1"
  have n: "width w \<noteq> 0" using assms(5) by simp
  from startAppend_exitInsert(1) [OF assms(1) e assms(3,4) n] obtain off where
    s: "startAppend w = Some (w\<lparr>append_w := True, extending := True, pending := False,
           cursor := length_w w, length_w := length_w w + 1, offset := off\<rparr>)" by blast
  show "\<exists>w1. startAppend w = Some w1 \<and> append_w w1 \<and> extending w1 \<and>
               length_w w1 = length_w w + 1 \<and> cursor w1 = length_w w \<and>
               length_w (exitInsert w1) = length_w w \<and> cursor (exitInsert w1) = cursor w"
    using s startAppend_exitInsert(2,3) [OF assms(1) e assms(3,4) n, of off] by simp
qed

theorem insert_append_roundtrip_witness:
  "cursor emptyWindow = length_w emptyWindow \<and>
   (\<exists>w1. startInsert emptyWindow = Some w1 \<and> extending w1 \<and> length_w w1 = 1 \<and>
      length_w (exitInsert w1) = 0 \<and> cursor (exitInsert w1) = 0) \<and>
   cursor smallWindow = max (length_w smallWindow) 1 - 1 \<and>
   (\<exists>w1. startAppend smallWindow = Some w1 \<and> extending w1 \<and> length_w w1 = 11 \<and>
      cursor w1 = 10 \<and> length_w (exitInsert w1) = 10 \<and> cursor (exitInsert w1) = 9)"
  using insert_append_roundtrip [of emptyWindow] insert_append_roundtrip [of smallWindow]
  by (simp add: emptyWindow_def smallWindow_def newWindow_def buffer_Len_def tenBytes_def) blast

text \<open>
  The claim as stated, for every state, fails where the cursor is one past a
  non-empty content, a state the command loop reaches from an empty window by
  \<open>pastEndEvents\<close>: entering insert opens the slot, and leaving it steps the cursor
  back from 1 to 0.
\<close>

theorem insert_roundtrip_counterexample:
  "run pastEndEvents emptyWindow = Some onePastEnd \<and>
   cursor onePastEnd = length_w onePastEnd \<and>
   startInsert onePastEnd =
     Some (onePastEnd\<lparr>append_w := True, extending := True, length_w := 2\<rparr>) \<and>
   length_w (exitInsert (onePastEnd\<lparr>append_w := True, extending := True, length_w := 2\<rparr>))
     = length_w onePastEnd \<and>
   cursor (exitInsert (onePastEnd\<lparr>append_w := True, extending := True, length_w := 2\<rparr>)) = 0 \<and>
   cursor (exitInsert (onePastEnd\<lparr>append_w := True, extending := True, length_w := 2\<rparr>))
     \<noteq> cursor onePastEnd"
  by (simp add: pastEndEvents_def onePastEnd_def ev_def emptyWindow_def newWindow_def
     buffer_Len_def run_event_def dispatch_def
     checkpoint_after_def startInsert_def insertRune_def insertByte_def insert_w_def
     buffer_Insert_def scrollToCursor_def cursorUp_def exitInsert_def deleteByte_def delete_w_def
     buffer_Delete_def undo_def history_Undo_def history_Push_def isNavigation_def
     add64_def sub64_def mul64_def quo64_def rem64_def i64_def Let_def)

section \<open>A search without a match\<close>









section \<open>Commands that neither edit nor checkpoint\<close>

lemma scrollToCursor_kept: "pred_option (kept w) (scrollToCursor w)"
  by (simp add: scrollToCursor_def)

lemma scrollToCursor_kept':
  "kept w v \<Longrightarrow> pred_option (kept w) (scrollToCursor v)"
  by (simp add: scrollToCursor_def)

lemma cursorUp_kept: "pred_option (kept w) (cursorUp c w)"
  by (simp add: cursorUp_def Let_def)

lemma cursorDown_kept: "pred_option (kept w) (cursorDown c w)"
  by (simp add: cursorDown_def scrollToCursor_kept')

lemma cursorLeft_kept: "pred_option (kept w) (cursorLeft c w)"
  by (simp add: cursorLeft_def Let_def)

lemma cursorRight_kept: "pred_option (kept w) (cursorRight m c w)"
  by (simp add: cursorRight_def Let_def)

lemma cursorPrev_kept: "pred_option (kept w) (cursorPrev c w)"
  by (simp add: cursorPrev_def Let_def)

lemma cursorNext_kept: "pred_option (kept w) (cursorNext m c w)"
  by (simp add: cursorNext_def Let_def scrollToCursor_kept')

lemma cursorHead_kept: "pred_option (kept w) (cursorHead c w)"
  by (simp add: cursorHead_def)

lemma cursorEnd_kept: "pred_option (kept w) (cursorEnd c w)"
  by (simp add: cursorEnd_def scrollToCursor_kept')

lemma cursorGotoPos_kept: "pred_option (kept w) (cursorGotoPos p w)"
  by (cases "positionToOffset w p") (simp_all add: cursorGotoPos_def Let_def)

lemma cursorGoto_kept: "pred_option (kept w) (cursorGoto e w)"
  by (simp add: cursorGoto_def cursorGotoPos_kept split: option.split)

lemma scrollUp_kept: "pred_option (kept w) (scrollUp c w)"
  by (simp add: scrollUp_def Let_def)

lemma scrollDown_kept: "pred_option (kept w) (scrollDown c w)"
  by (simp add: scrollDown_def Let_def)

lemma pageUp_kept: "pred_option (kept w) (pageUp w)"
  by (simp add: pageUp_def Let_def)

lemma pageDown_kept: "pred_option (kept w) (pageDown w)"
  by (simp add: pageDown_def Let_def)

lemma pageUpHalf_kept: "pred_option (kept w) (pageUpHalf w)"
  by (simp add: pageUpHalf_def Let_def)

lemma pageDownHalf_kept: "pred_option (kept w) (pageDownHalf w)"
  by (simp add: pageDownHalf_def Let_def)

lemma pageTop_kept: "pred_option (kept w) (pageTop w)"
  by (simp add: pageTop_def)

lemma pageEnd_kept: "pred_option (kept w) (pageEnd w)"
  by (simp add: pageEnd_def)

lemma jumpTo_kept: "pred_option (kept w) (jumpTo w)"
  by (simp add: jumpTo_def Let_def split: option.split)

lemma jumpBack_kept: "pred_option (kept w) (jumpBack w)"
  by (simp add: jumpBack_def)

lemma exitInsert_kept: "kept w (exitInsert w)"
  by (simp add: exitInsert_def Let_def)

lemma startInsert_kept: "pred_option (kept w) (startInsert w)"
  by (simp add: startInsert_def Let_def)

lemma startInsertHead_kept: "pred_option (kept w) (startInsertHead w)"
  by (simp add: startInsertHead_def cursorHead_def Let_def)

lemma startAppend_kept: "pred_option (kept w) (startAppend w)"
  by (simp add: startAppend_def Let_def scrollToCursor_kept')

lemma startAppendEnd_kept: "pred_option (kept w) (startAppendEnd w)"
proof (cases "cursorEnd 0 w")
  case None
  thus ?thesis by (simp add: startAppendEnd_def)
next
  case (Some v)
  hence "kept w v" using cursorEnd_kept [of w 0] by simp
  moreover have "pred_option (kept v) (startAppend v)" by (rule startAppend_kept)
  ultimately show ?thesis using Some by (cases "startAppend v") (simp_all add: startAppendEnd_def)
qed

lemma startReplace_kept:
  "pred_option (kept w) (startReplaceByte w)" "pred_option (kept w) (startReplace w)"
  by (simp_all add: startReplaceByte_def startReplace_def)

lemma visual_kept:
  "pred_option (kept w) (startVisual w)" "pred_option (kept w) (switchVisualEnd w)"
  "pred_option (kept w) (exitVisual w)"
  by (simp_all add: startVisual_def switchVisualEnd_def exitVisual_def Let_def scrollToCursor_kept')

lemma search_kept: "pred_option (kept w) (search t f w)"
  by (simp add: search_def searchForward_def searchBackward_def Let_def split: option.split)

lemma insertRune_Normal: "insertRune Normal ch w = Some w"
  by (simp add: insertRune_def)

lemma pred_optionD: "pred_option P x \<Longrightarrow> x = Some y \<Longrightarrow> P y"
  by simp

lemmas kept_dest =
  pred_optionD [OF cursorUp_kept] pred_optionD [OF cursorDown_kept]
  pred_optionD [OF cursorLeft_kept] pred_optionD [OF cursorRight_kept]
  pred_optionD [OF cursorPrev_kept] pred_optionD [OF cursorNext_kept]
  pred_optionD [OF cursorHead_kept] pred_optionD [OF cursorEnd_kept]
  pred_optionD [OF cursorGoto_kept] pred_optionD [OF scrollUp_kept]
  pred_optionD [OF scrollDown_kept] pred_optionD [OF pageUp_kept]
  pred_optionD [OF pageDown_kept] pred_optionD [OF pageUpHalf_kept]
  pred_optionD [OF pageDownHalf_kept] pred_optionD [OF pageTop_kept]
  pred_optionD [OF pageEnd_kept] pred_optionD [OF jumpTo_kept]
  pred_optionD [OF jumpBack_kept] pred_optionD [OF startInsert_kept]
  pred_optionD [OF startInsertHead_kept] pred_optionD [OF startAppend_kept]
  pred_optionD [OF startAppendEnd_kept] pred_optionD [OF startReplace_kept(1)]
  pred_optionD [OF startReplace_kept(2)] pred_optionD [OF visual_kept(1)]
  pred_optionD [OF visual_kept(2)] pred_optionD [OF visual_kept(3)]
  pred_optionD [OF search_kept]

lemma dispatch_kept:
  assumes "dispatch e w = Some w1" and "eMode e = Normal"
      and "eType e \<notin> {DeleteByte, DeletePrevByte, Increment, Decrement, Backspace, Delete,
             SwitchFocus, Undo, Redo}"
  shows "kept w w1"
  using assms exitInsert_kept [of w]
  by (cases "eType e") (auto simp: dispatch_def insertRune_Normal dest: kept_dest)

section \<open>Checkpoints in Normal mode\<close>

lemma tick_moves:
  assumes "0 < n" and "n < 18446744073709551616"
  shows "(t :: 64 word) + of_nat n \<noteq> t"
proof -
  have "\<not> (2 ^ LENGTH(64) dvd n)" using assms by (auto dest: dvd_imp_le)
  hence "(of_nat n :: 64 word) \<noteq> 0" by (simp add: word_of_nat_eq_0_iff)
  thus ?thesis by simp
qed

lemma deleteByte_loop_ticks:
  "history (deleteByte_loop n w) = history w \<and>
   prevChanged (deleteByte_loop n w) = prevChanged w \<and>
   changedTick (deleteByte_loop n w) = changedTick w + of_nat n"
  by (induction n arbitrary: w) (simp_all add: Let_def delete_w_def)

lemma deletePrevByte_loop_ticks:
  "history (deletePrevByte_loop n w) = history w \<and>
   prevChanged (deletePrevByte_loop n w) = prevChanged w \<and>
   changedTick (deletePrevByte_loop n w) = changedTick w + of_nat n"
  by (induction n arbitrary: w) (simp_all add: Let_def delete_w_def)

lemma loop_count_bound:
  assumes "is64 c"
  shows "nat (min (min (max c 1) a) b) < 18446744073709551616"
    and "nat (min (max c 1) a) < 18446744073709551616"
  using assms unfolding is64_def by linarith+

lemma edited_deleteByte:
  assumes "deleteByte c w = Some w1" and "is64 c"
  shows "history w1 = history w \<and> prevChanged w1 = prevChanged w \<and>
         (buffer w1 \<noteq> buffer w \<longrightarrow> changedTick w1 \<noteq> changedTick w)"
proof (cases "length_w w = 0")
  case True
  thus ?thesis using assms(1) by (simp add: deleteByte_def)
next
  case False
  define n where "n = nat (min (min (max c 1) (sub64 (width w) (rem64 (cursor w) (width w))))
                     (sub64 (length_w w) (cursor w)))"
  have w1: "w1 = deleteByte_loop n w"
    using assms(1) False by (simp add: deleteByte_def n_def split: if_splits)
  have b: "n < 18446744073709551616" unfolding n_def by (rule loop_count_bound(1) [OF assms(2)])
  show ?thesis
  proof (cases "n = 0")
    case True
    thus ?thesis using w1 by simp
  next
    case False
    hence "changedTick w + of_nat n \<noteq> changedTick w" using b by (intro tick_moves) simp_all
    thus ?thesis using w1 deleteByte_loop_ticks [of n w] by simp
  qed
qed

lemma edited_deletePrevByte:
  assumes "deletePrevByte c w = Some w1" and "is64 c"
  shows "history w1 = history w \<and> prevChanged w1 = prevChanged w \<and>
         (buffer w1 \<noteq> buffer w \<longrightarrow> changedTick w1 \<noteq> changedTick w)"
proof -
  define n where "n = nat (min (max c 1) (rem64 (cursor w) (width w)))"
  have w1: "w1 = deletePrevByte_loop n w"
    using assms(1) by (simp add: deletePrevByte_def n_def split: if_splits)
  have b: "n < 18446744073709551616" unfolding n_def by (rule loop_count_bound(2) [OF assms(2)])
  show ?thesis
  proof (cases "n = 0")
    case True
    thus ?thesis using w1 by simp
  next
    case False
    hence "changedTick w + of_nat n \<noteq> changedTick w" using b by (intro tick_moves) simp_all
    thus ?thesis using w1 deletePrevByte_loop_ticks [of n w] by simp
  qed
qed

lemma edited_byte:
  assumes "increment c w = Some w1 \<or> decrement c w = Some w1 \<or> backspace w = Some w1"
  shows "history w1 = history w \<and> prevChanged w1 = prevChanged w \<and>
         (buffer w1 \<noteq> buffer w \<longrightarrow> changedTick w1 \<noteq> changedTick w)"
  using assms
  by (auto simp: increment_def decrement_def backspace_def replace_w_def delete_w_def Let_def
      split: option.splits if_splits prod.splits)

lemma history_Push_neq: "history_Push h c \<noteq> h"
proof
  assume e: "history_Push h c = h"
  hence "entries (history_Push h c) = entries h" "index (history_Push h c) = index h" by simp_all
  hence l: "length (take (Suc (index h)) (entries h) @ [c]) = length (entries h)"
    and i: "length (take (Suc (index h)) (entries h)) = index h"
    by (simp_all add: history_Push_def)
  from l i show False by simp
qed

lemma undo_loop_entries: "entries (history (undo_loop n w)) = entries (history w)"
  by (induction n arbitrary: w) (auto simp: history_Undo_def split: option.splits if_splits prod.splits)

lemma redo_loop_entries: "entries (history (redo_loop n w)) = entries (history w)"
  by (induction n arbitrary: w) (auto simp: history_Redo_def split: option.splits if_splits prod.splits)


lemma edited_dispatch:
  assumes "dispatch e w = Some w1" and "is64 (eCount e)"
      and "eType e \<in> {DeleteByte, DeletePrevByte, Increment, Decrement, Backspace, Delete}"
  shows "history w1 = history w \<and> prevChanged w1 = prevChanged w \<and>
         (buffer w1 \<noteq> buffer w \<longrightarrow> changedTick w1 \<noteq> changedTick w)"
proof -
  have one: "is64 1" by (simp add: is64_def)
  show ?thesis
    using assms edited_deleteByte [of "eCount e" w w1] edited_deleteByte [OF _ one, of w w1]
      edited_deletePrevByte [of "eCount e" w w1] edited_byte [of "eCount e" w w1]
    by (auto simp: dispatch_def)
qed

lemma switchFocus_dispatch:
  assumes "dispatch e w = Some w1" and "eType e = SwitchFocus"
  shows "history w1 = history w \<and> prevChanged w1 = prevChanged w \<and> buffer w1 = buffer w \<and>
         changedTick w1 \<noteq> changedTick w \<and> offset w1 = offset w \<and> cursor w1 = cursor w"
  using assms(1) dispatch_SwitchFocus [OF assms(2), of w] by (cases "pending w") auto

lemma undo_redo_dispatch:
  assumes "dispatch e w = Some w1" and "eType e \<in> {Undo, Redo}"
  shows "entries (history w1) = entries (history w)"
  using assms undo_loop_entries redo_loop_entries
  by (auto simp: dispatch_def undo_def redo_def split: if_splits)

lemma checkpoint_after_fields:
  "buffer (checkpoint_after e w w1) = buffer w1"
  "changedTick (checkpoint_after e w w1) = changedTick w1"
  "offset (checkpoint_after e w w1) = offset w1"
  "cursor (checkpoint_after e w w1) = cursor w1"
  by (simp_all add: checkpoint_after_def Let_def)

lemma checkpoint_after_Normal:
  assumes "eMode e = Normal" and "eType e \<notin> {Undo, Redo}"
  shows "history (checkpoint_after e w w1) =
           (if changedTick w \<noteq> changedTick w1 \<or> eType e = ExitInsert \<and> prevChanged w1
            then history_Push (history w1) (buffer w1, offset w1, cursor w1) else history w1)"
  using assms by (simp add: checkpoint_after_def Let_def)

lemma checkpoint_after_undo:
  assumes "eType e \<in> {Undo, Redo}"
  shows "history (checkpoint_after e w w1) = history w1"
  using assms by (auto simp: checkpoint_after_def Let_def)

text \<open>
  Claim C4, amended. For a command processed in Normal mode other than \<open>Undo\<close> and
  \<open>Redo\<close>, a checkpoint (content, viewport offset and cursor after the command) is
  pushed to the history if and only if the change counter advanced during the command
  (or the command is \<open>ExitInsert\<close> and the previous command advanced it). A command that
  changes the content advances the counter; the counter advances only in the deleting,
  incrementing and decrementing commands and in \<open>SwitchFocus\<close>. \<open>Undo\<close> and \<open>Redo\<close> push no
  checkpoint: the entries of the history stay as they are.
\<close>

theorem checkpoint_rule:
  assumes "run_event e w = Some w'" and "eMode e = Normal" and "is64 (eCount e)"
  shows "(eType e \<notin> {Undo, Redo} \<longrightarrow>
            (history w' \<noteq> history w \<longleftrightarrow>
               changedTick w' \<noteq> changedTick w \<or> eType e = ExitInsert \<and> prevChanged w) \<and>
            (history w' \<noteq> history w \<longrightarrow>
               history w' = history_Push (history w) (buffer w', offset w', cursor w')) \<and>
            (buffer w' \<noteq> buffer w \<longrightarrow> changedTick w' \<noteq> changedTick w) \<and>
            (changedTick w' \<noteq> changedTick w \<longrightarrow>
               eType e \<in> {DeleteByte, DeletePrevByte, Increment, Decrement, Backspace, Delete,
                          SwitchFocus})) \<and>
         (eType e \<in> {Undo, Redo} \<longrightarrow> entries (history w') = entries (history w))"
proof (cases "eType e = OtherEvent")
  case True
  thus ?thesis using assms(1) by (simp add: run_event_def)
next
  case False
  then obtain w1 where d: "dispatch e w = Some w1" and w': "w' = checkpoint_after e w w1"
    using assms(1) by (auto simp: run_event_def split: option.splits)
  note f = checkpoint_after_fields [of e w w1]
  show ?thesis
  proof (cases "eType e \<in> {Undo, Redo}")
    case True
    thus ?thesis using undo_redo_dispatch [OF d True] checkpoint_after_undo [OF True, of w w1] w'
      by simp
  next
    case ur: False
    note h = checkpoint_after_Normal [OF assms(2) ur, of w w1]
    have k: "history w1 = history w \<and> prevChanged w1 = prevChanged w \<and>
             (buffer w1 \<noteq> buffer w \<longrightarrow> changedTick w1 \<noteq> changedTick w) \<and>
             (changedTick w1 \<noteq> changedTick w \<longrightarrow>
               eType e \<in> {DeleteByte, DeletePrevByte, Increment, Decrement, Backspace, Delete,
                          SwitchFocus})"
    proof (cases "eType e \<in> {DeleteByte, DeletePrevByte, Increment, Decrement, Backspace, Delete}")
      case True
      thus ?thesis using edited_dispatch [OF d assms(3) True] by blast
    next
      case ed: False
      show ?thesis
      proof (cases "eType e = SwitchFocus")
        case True
        thus ?thesis using switchFocus_dispatch [OF d True] by simp
      next
        case False
        hence "eType e \<notin> {DeleteByte, DeletePrevByte, Increment, Decrement, Backspace, Delete,
             SwitchFocus, Undo, Redo}" using ed ur by simp
        from dispatch_kept [OF d assms(2) this] show ?thesis by simp
      qed
    qed
    show ?thesis using ur k h f w' history_Push_neq [of "history w" "(buffer w1, offset w1, cursor w1)"]
      by auto
  qed
qed

theorem checkpoint_rule_witness:
  "run_event (ev DeleteByte Normal 1 0) smallWindow =
     Some (smallWindow\<lparr>buffer := butlast tenBytes, changedTick := 1, cursor := 8, length_w := 9,
        prevChanged := True,
        history := \<lparr>entries = [(tenBytes, 0, 0), (butlast tenBytes, 4, 8)], index = 1\<rparr>\<rparr>) \<and>
   run_event (ev CursorLeft Normal 1 0) smallWindow = Some (smallWindow\<lparr>cursor := 8\<rparr>) \<and>
   run_event (ev Undo Normal 1 0) smallWindow = Some smallWindow"
  using checkpoint_rule [of "ev DeleteByte Normal 1 0" smallWindow]
  by (simp add: ev_def smallWindow_def newWindow_def tenBytes_def buffer_Len_def run_event_def
      dispatch_def checkpoint_after_def deleteByte_def cursorLeft_def undo_def history_Undo_def
      history_Push_def delete_w_def buffer_Delete_def
      add64_def sub64_def mul64_def quo64_def rem64_def i64_def Let_def)

text \<open>
  The claim as stated fails on \<open>SwitchFocus\<close>: in Normal mode it pushes a checkpoint,
  and the content is what it was.
\<close>

theorem checkpoint_counterexample:
  "eMode switchFocusEvent = Normal \<and>
   run_event switchFocusEvent smallWindow =
     Some (smallWindow\<lparr>focusText := True, changedTick := 1, prevChanged := True,
        history := \<lparr>entries = [(tenBytes, 0, 0), (tenBytes, 4, 9)], index = 1\<rparr>\<rparr>) \<and>
   buffer smallWindow = tenBytes \<and>
   history smallWindow = \<lparr>entries = [(tenBytes, 0, 0)], index = 0\<rparr>"
  by (simp add: switchFocusEvent_def smallWindow_def newWindow_def tenBytes_def run_event_def
      dispatch_def checkpoint_after_def history_Push_def Let_def)

section \<open>Jumping to the offset written at the cursor\<close>

lemma digit_not_white: "isDigit b \<Longrightarrow> \<not> isWhite b"
  by (auto simp: isDigit_def isWhite_def)

lemma skipWhite_stops:
  assumes "a \<le> s" and "s < 100" and "\<forall>k. a \<le> k \<and> k < s \<longrightarrow> isWhite (bs ! k)"
      and "\<not> isWhite (bs ! s)"
  shows "skipWhite bs a = s"
  using assms
proof (induction "s - a" arbitrary: a)
  case 0
  hence "a = s" by simp
  thus ?case using "0.prems" by (subst skipWhite.simps) simp
next
  case (Suc n)
  hence lt: "a < s" by simp
  hence w: "isWhite (bs ! a)" using Suc.prems by simp
  have "skipWhite bs (Suc a) = s"
    using Suc.hyps Suc.prems lt by (intro Suc.hyps(1)) auto
  thus ?case using w lt Suc.prems(2) by (subst skipWhite.simps) simp
qed

lemma backDigits_stops:
  assumes "i \<le> s" and "\<forall>k. i \<le> k \<and> k < s \<longrightarrow> isDigit (bs ! k)"
      and "i = 0 \<or> \<not> isDigit (bs ! (i - 1))"
  shows "backDigits bs s = i"
  using assms
proof (induction "s - i" arbitrary: s)
  case 0
  hence "s = i" by simp
  thus ?case using "0.prems" by (subst backDigits.simps) auto
next
  case (Suc n)
  hence lt: "i < s" by simp
  hence d: "isDigit (bs ! (s - 1))" using Suc.prems by simp
  have "backDigits bs (s - 1) = i"
    using Suc.hyps Suc.prems lt by (intro Suc.hyps(1)) auto
  thus ?case using d lt by (subst backDigits.simps) simp
qed

lemma fwdDigits_stops:
  assumes "a \<le> j" and "j < 100" and "\<forall>k. a \<le> k \<and> k < j \<longrightarrow> isDigit (bs ! k)"
      and "\<not> isDigit (bs ! j)"
  shows "fwdDigits bs a = j"
  using assms
proof (induction "j - a" arbitrary: a)
  case 0
  hence "a = j" by simp
  thus ?case using "0.prems" by (subst fwdDigits.simps) simp
next
  case (Suc n)
  hence lt: "a < j" by simp
  hence w: "isDigit (bs ! a)" using Suc.prems by simp
  have "fwdDigits bs (Suc a) = j"
    using Suc.hyps Suc.prems lt by (intro Suc.hyps(1)) auto
  thus ?case using w lt Suc.prems(2) by (subst fwdDigits.simps) simp
qed

lemma readBytes_length: "readBytes w off n = Some bs \<Longrightarrow> 0 \<le> n \<Longrightarrow> length bs = nat n"
  by (auto simp: readBytes_def buffer_ReadAt_def split: if_splits)

lemma ParseInt_digits:
  assumes "length bs = 100" and "i < j" and "j < 100"
      and "\<forall>k. i \<le> k \<and> k < j \<longrightarrow> isDigit (bs ! k)"
      and "digitsValue (take (j - i) (drop i bs)) < 9223372036854775808"
  shows "ParseInt (take (j - i) (drop i bs)) = digitsValue (take (j - i) (drop i bs))"
proof -
  have ne: "take (j - i) (drop i bs) \<noteq> []" using assms(1,2,3) by simp
  have "list_all isDigit (take (j - i) (drop i bs))"
    unfolding list_all_length using assms(1,2,3,4) by simp
  thus ?thesis using ne assms(5) by (simp add: ParseInt_def)
qed

text \<open>
  Claim C6, amended. Let the cursor be at offset 50 or more, so that byte 50 of the
  100 bytes \<open>jumpTo\<close> reads is the byte at the cursor. If, after the white and NUL bytes
  from the cursor on (up to \<open>s\<close>), a run of decimal digits \<open>[i, j)\<close> holds byte \<open>s\<close>,
  starts at the start of the window or after a byte that is no digit, and ends before
  the end of the window, and its value \<open>v\<close> satisfies \<open>0 < v < length\<close>, then \<open>jumpTo\<close>
  pushes the current (cursor, viewport offset) onto the jump stack, sets the cursor
  to \<open>v\<close> and sets the viewport offset \<open>height / 3\<close> rows above the row of \<open>v\<close>, not
  below 0.
\<close>

theorem jumpTo_digits:
  assumes "0 < width w" and "0 < height w" and "height w * width w < 9223372036854775808"
      and "50 \<le> cursor w" and "is64 (cursor w)" and "is64 (length_w w)"
      and "readBytes w (cursor w - 50) 100 = Some bs"
      and "50 \<le> s" and "s < 100" and "\<forall>k. 50 \<le> k \<and> k < s \<longrightarrow> isWhite (bs ! k)"
      and "i \<le> s" and "s < j" and "j < 100"
      and "\<forall>k. i \<le> k \<and> k < j \<longrightarrow> isDigit (bs ! k)"
      and "i = 0 \<or> \<not> isDigit (bs ! (i - 1))" and "\<not> isDigit (bs ! j)"
      and "v = digitsValue (take (j - i) (drop i bs))" and "0 < v" and "v < length_w w"
  shows "jumpTo w = Some (w\<lparr>stack := stack w @ [(cursor w, offset w)], cursor := v,
           offset := max (v - v mod width w - max (height w div 3) 0 * width w) 0\<rparr>)"
proof -
  have c: "max (sub64 (cursor w) 50) 0 = cursor w - 50"
    using assms(4,5) sub64_id [of "cursor w" 50] by (simp add: is64_def)
  have len: "length bs = 100" using readBytes_length [OF assms(7)] by simp
  have ds: "isDigit (bs ! s)" using assms(11,12,14) by simp
  have 1: "skipWhite bs 50 = s"
    using assms(8,9,10) digit_not_white [OF ds] by (intro skipWhite_stops) auto
  have 2: "backDigits bs s = i"
    using assms(11,12,14,15) by (intro backDigits_stops) auto
  have 3: "fwdDigits bs i = j"
    using assms(11,12,13,14,16) by (intro fwdDigits_stops) auto
  have v64: "v < 9223372036854775808" using assms(19,6) by (simp add: is64_def)
  have 4: "ParseInt (take (j - i) (drop i bs)) = v"
    using ParseInt_digits [OF len _ assms(13,14)] assms(11,12,17) v64 by simp
  have r: "rem64 v (width w) = v mod width w" using assms(1,18) by (simp add: rem64_pos)
  have m: "0 \<le> v mod width w" "v mod width w \<le> v"
    using assms(1,18) by (simp_all add: zmod_le_nonneg_dividend)
  have s1: "sub64 v (v mod width w) = v - v mod width w"
    using m v64 assms(18) by (intro sub64_id) (simp add: is64_def)
  have q: "quo64 (height w) 3 = height w div 3"
  proof -
    have "height w * 1 \<le> height w * width w" using assms(1,2) by (intro mult_left_mono) simp_all
    hence "is64 (height w)" using assms(2,3) unfolding is64_def by linarith
    thus ?thesis using assms(2) by (intro quo64_pos) simp_all
  qed
  have h3: "0 \<le> height w div 3" "height w div 3 \<le> height w"
    using assms(2) by (simp_all add: pos_imp_zdiv_nonneg_iff)
  have hw: "0 \<le> height w div 3 * width w" "height w div 3 * width w \<le> height w * width w"
    using h3 assms(1) by (simp_all add: mult_right_mono)
  have mx: "max (height w div 3) 0 = height w div 3" using h3 by simp
  have p: "mul64 (height w div 3) (width w) = height w div 3 * width w"
    using hw assms(3) by (intro mul64_id) (simp add: is64_def)
  have s2: "sub64 (v - v mod width w) (height w div 3 * width w)
            = v - v mod width w - height w div 3 * width w"
    using m hw v64 assms(3,18) by (intro sub64_id) (simp add: is64_def)
  show ?thesis
    using assms(1,7,9,13,18,19) ds
    by (simp add: jumpTo_def c 1 2 3 4 r s1 q mx p s2 Let_def)
qed


theorem jumpTo_digits_witness:
  "jumpTo line42Window = Some (line42Window\<lparr>stack := [(57, 48)], cursor := 42, offset := 16\<rparr>)"
proof -
  define bs :: "byte list" where "bs = drop 7 (replicate 48 0x2e @ seeLine42) @ replicate 47 0"
  have rb: "readBytes line42Window (cursor line42Window - 50) 100 = Some bs"
    by (simp add: line42Window_def newWindow_def readBytes_def buffer_ReadAt_def bs_def
        seeLine42_def)
  have n: "bs ! 49 = 0x20" "bs ! 50 = 0x34" "bs ! 51 = 0x32" "bs ! 52 = 0x20"
    by (simp_all add: bs_def seeLine42_def nth_append)
  have t: "take (52 - 50) (drop 50 bs) = [0x34, 0x32]"
    by (simp add: bs_def seeLine42_def)
  have w: "\<forall>k. 50 \<le> k \<and> k < (50::nat) \<longrightarrow> isWhite (bs ! k)" by auto
  have d: "\<forall>k. 50 \<le> k \<and> k < (52::nat) \<longrightarrow> isDigit (bs ! k)"
  proof (intro allI impI)
    fix k :: nat assume "50 \<le> k \<and> k < 52"
    hence "k = 50 \<or> k = 51" by arith
    thus "isDigit (bs ! k)" using n by (auto simp: isDigit_def)
  qed
  have l: "(50::nat) = 0 \<or> \<not> isDigit (bs ! (50 - 1))" using n by (simp add: isDigit_def)
  have r: "\<not> isDigit (bs ! 52)" using n by (simp add: isDigit_def)
  have v: "42 = digitsValue (take (52 - 50) (drop 50 bs))" using t by (simp add: digitsValue_def)
  have "jumpTo line42Window = Some (line42Window\<lparr>
          stack := stack line42Window @ [(cursor line42Window, offset line42Window)],
          cursor := 42,
          offset := max (42 - 42 mod width line42Window
                          - max (height line42Window div 3) 0 * width line42Window) 0\<rparr>)"
    by (rule jumpTo_digits [OF _ _ _ _ _ _ rb _ _ w _ _ _ d l r v])
       (simp_all add: line42Window_def newWindow_def is64_def buffer_Len_def seeLine42_def)
  thus ?thesis by (simp add: line42Window_def newWindow_def)
qed

text \<open>
  The claim as stated takes every \<open>v < length\<close> for a valid target. \<open>jumpTo\<close> returns
  early on \<open>v \<le> 0\<close> (line 566): on the complete digit run \<open>0\<close> at the cursor it
  pushes nothing and moves nothing.
\<close>

theorem jumpTo_zero_counterexample:
  "cursor zeroRunWindow = 50 \<and> buffer zeroRunWindow ! 49 = 0x78 \<and>
   buffer zeroRunWindow ! 50 = 0x30 \<and> buffer zeroRunWindow ! 51 = 0x20 \<and>
   digitsValue [0x30] = 0 \<and> 0 < length_w zeroRunWindow \<and>
   jumpTo zeroRunWindow = Some zeroRunWindow"
  by code_simp

text \<open>
  With the cursor before offset 50 the window read starts at offset 0, and the scan
  still starts at its byte 50, which is then not the byte at the cursor: on the text
  \<open>see line 42 \<close> at the start of the content, the cursor on the \<open>4\<close>, \<open>jumpTo\<close> does
  nothing.
\<close>

lemma jumpTo_near_start:
  "cursor nearStartWindow = 9 \<and> take 12 (buffer nearStartWindow) = seeLine42 \<and>
   42 < length_w nearStartWindow \<and> jumpTo nearStartWindow = Some nearStartWindow"
  by code_simp

section \<open>The cursor after a navigation command\<close>

text \<open>
  Claim C1 holds that after every navigation command \<open>0 \<le> cursor < max(length, 1)\<close>.
  \<open>cursorEnd\<close> multiplies the row of the cursor plus the count by the width before it
  clamps the result to the content (line 438), and the product wraps around: in the
  window \<open>twoRows\<close>, which satisfies the three conditions of the claim, the command
  \<open>CursorEnd\<close> with the count \<open>2^59\<close> leaves the cursor negative.
\<close>

theorem cursorEnd_overflow:
  "0 \<le> cursor twoRows \<and> cursor twoRows < max (length_w twoRows) 1 \<and>
   offset twoRows mod width twoRows = 0 \<and> offset twoRows \<le> cursor twoRows \<and>
   cursor twoRows < offset twoRows + height twoRows * width twoRows \<and>
   run [ev CursorEnd Normal 576460752303423488 0] twoRows
     = Some (twoRows\<lparr>cursor := - 9223372036854775793\<rparr>)"
  by (simp add: twoRows_def ev_def newWindow_def buffer_Len_def run_event_def dispatch_def
      checkpoint_after_def cursorEnd_def scrollToCursor_def
      add64_def sub64_def mul64_def quo64_def i64_def Let_def)

end
